theory Spec2Isabelle
  imports Main "HOL-Library.Word"
begin

section \<open>The message dispatcher of ClangdLSPServer\<close>

text \<open>
  The development follows \<^verbatim>\<open>ClangdLSPServer.cpp\<close>: the class
  \<^verbatim>\<open>ClangdLSPServer::MessageHandler\<close> with its nested class
  \<^verbatim>\<open>ReplyOnce\<close>, and \<^verbatim>\<open>ClangdLSPServer::onInitialize\<close>.
  Every member function becomes a function that takes the endpoint's state and returns the
  new state. Whatever the endpoint does that can be observed from outside (a log line, a frame
  handed to the transport, a mutex taken or released, a stored reply callback run, a canceler
  fired, a collaborator constructed) is appended, in program order, to the field \<open>Trace\<close>.
  Time stamps, trace spans and the ambient offset encoding (\<^verbatim>\<open>handlerContext\<close>)
  do not influence any of this and are left out.
\<close>

subsection \<open>JSON values, errors, frames\<close>

text \<open>
  \<^verbatim>\<open>llvm::json::Value\<close>, without floating-point numbers. An object is kept as
  its list of members; \<open>map_of\<close> looks a key up.
\<close>

datatype json =
    JNull
  | JBoolean bool
  | JInteger int
  | JString string
  | JArray "json list"
  | JObject "(string \<times> json) list"

fun getAsInteger :: "json \<Rightarrow> int option" where
  "getAsInteger (JInteger i) = Some i"
| "getAsInteger _ = None"

fun getAsObject :: "json \<Rightarrow> (string \<times> json) list option" where
  "getAsObject (JObject kvs) = Some kvs"
| "getAsObject _ = None"

datatype ErrorCode =
    ParseError
  | InvalidRequest
  | MethodNotFound
  | InvalidParams
  | InternalError
  | ServerNotInitialized
  | RequestCancelled
  | ContentModified

text \<open>
  Modelled from the spec: the integer values of the enumerators of \<^verbatim>\<open>ErrorCode\<close>
  (the enumeration is declared in Protocol.h, which is not among the sources).
\<close>

fun ErrorCode_value :: "ErrorCode \<Rightarrow> int" where
  "ErrorCode_value ParseError = - 32700"
| "ErrorCode_value InvalidRequest = - 32600"
| "ErrorCode_value MethodNotFound = - 32601"
| "ErrorCode_value InvalidParams = - 32602"
| "ErrorCode_value InternalError = - 32603"
| "ErrorCode_value ServerNotInitialized = - 32002"
| "ErrorCode_value RequestCancelled = - 32800"
| "ErrorCode_value ContentModified = - 32801"

text \<open>
  An \<^verbatim>\<open>llvm::Error\<close> is an \<^verbatim>\<open>LSPError\<close> (message and code) or a
  string error; \<^verbatim>\<open>llvm::Expected<llvm::json::Value>\<close> is a sum, the error on the left.
  A formatted text (a log line, the message of a string error made with
  \<^verbatim>\<open>formatv\<close>) is its format string with its arguments, not yet rendered.
  \<open>ADuration\<close> stands for the elapsed time printed by \<^verbatim>\<open>{2:ms}\<close>.
\<close>

datatype arg = AStr string | AJson json | AInt int | AErr Error | ADuration
  and Error = LSPError string ErrorCode | StringError string "arg list"

type_synonym Expected = "Error + json"

text \<open>The three writing operations of the transport, as the frames they put on the wire.\<close>

datatype frame =
    Transp_reply json Expected
  | Transp_call string json json
  | Transp_notify string json

datatype mutex = TranspWriter | CallMutex | RequestCancelersMutex

datatype component = DirectoryBasedCDB | OverlayCDB | ClangdServer

datatype 'cb event =
    Log string "arg list"
  | ELog string "arg list"
  | Acquire mutex
  | Release mutex
  | Write frame
  | Invoke 'cb Expected
  | Fire nat
  | Construct component

text \<open>
  How a call can end other than by returning: a failed \<^verbatim>\<open>assert\<close> (in a build
  with assertions) or the use of a null \<^verbatim>\<open>Server\<close> pointer.
\<close>

datatype failure = AssertionFailed string | NullDereference

datatype 'a outcome = Returns 'a | Fails failure

subsection \<open>The state of the endpoint\<close>

datatype OffsetEncoding = UnsupportedEncoding | UTF16 | UTF8 | UTF32

record Options =
  SemanticHighlighting :: bool
  WorkspaceRoot :: "string option"
  QueryDriverGlobs :: "string list"
  ResourceDir :: "string option"

text \<open>
  The fields of \<^verbatim>\<open>ClangdLSPServer\<close> and of its \<^verbatim>\<open>MessageHandler\<close>
  that the dispatcher reads or writes. \<open>AssertionsEnabled\<close> is the build configuration
  (\<^verbatim>\<open>NDEBUG\<close> not defined); no function changes it. A reply callback is a value
  of the type parameter \<open>'cb\<close>; a canceler is the number of the task it cancels.
  \<open>Server\<close>, \<open>CDB\<close> and \<open>BaseCDB\<close> hold what the collaborator was built from:
  the options; the base database, the fallback flags and the resource directory; the
  compile-commands directory and the query-driver globs. \<open>NextCallID\<close>, an
  \<^verbatim>\<open>int\<close>, is a word of 32 bits read as a signed number (\<open>sint\<close>): the increment at
  2147483647, which C++ leaves undefined, is the one of two's-complement arithmetic and gives
  -2147483648. The IDs held in \<open>ReplyCallbacks\<close> are the integers that such words
  denote. \<open>NextRequestCookie\<close>, an \<^verbatim>\<open>unsigned\<close>, is a word of 32 bits and wraps
  around.
\<close>

record 'cb ClangdLSPServer =
  AssertionsEnabled :: bool
  IsBeingDestroyed :: bool
  NegotiatedOffsetEncoding :: "OffsetEncoding option"
  ClangdServerOpts :: Options
  UseDirBasedCDB :: bool
  CompileCommandsDir :: "string option"
  BaseCDB :: "(string option \<times> string list) option"
  CDB :: "((string option \<times> string list) option \<times> string list \<times> string option) option"
  Server :: "Options option"
  NextCallID :: "32 word"
  ReplyCallbacks :: "(int \<times> 'cb) list"
  RequestCancelers :: "string \<Rightarrow> (nat \<times> 32 word) option"
  NextRequestCookie :: "32 word"
  NextTask :: nat
  Trace :: "'cb event list"

definition emit :: "'cb event \<Rightarrow> 'cb ClangdLSPServer \<Rightarrow> 'cb ClangdLSPServer" where
  "emit e s = s\<lparr>Trace := Trace s @ [e]\<rparr>"

definition log :: "string \<Rightarrow> arg list \<Rightarrow> 'cb ClangdLSPServer \<Rightarrow> 'cb ClangdLSPServer" where
  "log Fmt Args s = emit (Log Fmt Args) s"

definition elog :: "string \<Rightarrow> arg list \<Rightarrow> 'cb ClangdLSPServer \<Rightarrow> 'cb ClangdLSPServer" where
  "elog Fmt Args s = emit (ELog Fmt Args) s"

text \<open>The frames written so far and the cancelers fired so far.\<close>

fun frames :: "'cb event list \<Rightarrow> frame list" where
  "frames [] = []"
| "frames (Write f # es) = f # frames es"
| "frames (_ # es) = frames es"

fun fired :: "'cb event list \<Rightarrow> nat list" where
  "fired [] = []"
| "fired (Fire t # es) = t # fired es"
| "fired (_ # es) = fired es"

subsection \<open>ReplyOnce\<close>

text \<open>
  \<open>ServerNonNull\<close> is the member \<^verbatim>\<open>Server\<close>, a pointer that is null exactly
  when the object has been moved from. The start time and the trace arguments are left out.
\<close>

record ReplyOnce =
  Replied :: bool
  ID :: json
  Method :: string
  ServerNonNull :: bool

definition ReplyOnce_new :: "json \<Rightarrow> string \<Rightarrow> ReplyOnce" where
  "ReplyOnce_new ReqID Meth = \<lparr>Replied = False, ID = ReqID, Method = Meth, ServerNonNull = True\<rparr>"

text \<open>
  The move constructor: the pair of the new object and of what is left of the old one
  (a moved-from JSON value is null, a moved-from string is empty).
\<close>

definition ReplyOnce_move :: "ReplyOnce \<Rightarrow> ReplyOnce \<times> ReplyOnce" where
  "ReplyOnce_move Other =
     (Other, Other\<lparr>ID := JNull, Method := [], ServerNonNull := False\<rparr>)"

text \<open>
  \<^verbatim>\<open>ReplyOnce::operator()\<close>. \<^verbatim>\<open>Replied.exchange(true)\<close> is one step.
  The reply is written between taking and releasing \<^verbatim>\<open>TranspWriter\<close>;
  \<^verbatim>\<open>std::move(ID)\<close> leaves the object's \<open>ID\<close> null. The result is the object
  afterwards.
\<close>

definition ReplyOnce_call ::
  "ReplyOnce \<Rightarrow> Expected \<Rightarrow> 'cb ClangdLSPServer \<Rightarrow> ReplyOnce outcome \<times> 'cb ClangdLSPServer" where
  "ReplyOnce_call R Reply s =
     (if AssertionsEnabled s \<and> \<not> ServerNonNull R then
        (Fails (AssertionFailed ''moved-from!''), s)
      else if Replied R then
        (let s1 = elog ''Replied twice to message {0}({1})'' [AStr (Method R), AJson (ID R)] s
         in if AssertionsEnabled s1 then
              (Fails (AssertionFailed ''must reply to each call only once!''), s1)
            else (Returns R, s1))
      else
        (let s1 = (case Reply of
                     Inr v \<Rightarrow>
                       log ''--> reply:{0}({1}) {2:ms}''
                         [AStr (Method R), AJson (ID R), ADuration] s
                   | Inl Err \<Rightarrow>
                       log ''--> reply:{0}({1}) {2:ms}, error: {3}''
                         [AStr (Method R), AJson (ID R), ADuration, AErr Err] s)
         in if \<not> ServerNonNull R then (Fails NullDereference, s1)
            else
              (Returns (R\<lparr>Replied := True, ID := JNull\<rparr>),
               emit (Release TranspWriter)
                 (emit (Write (Transp_reply (ID R) Reply))
                    (emit (Acquire TranspWriter) s1)))))"

text \<open>\<^verbatim>\<open>ReplyOnce::~ReplyOnce\<close>.\<close>

definition ReplyOnce_dtor ::
  "ReplyOnce \<Rightarrow> 'cb ClangdLSPServer \<Rightarrow> unit outcome \<times> 'cb ClangdLSPServer" where
  "ReplyOnce_dtor R s =
     (if ServerNonNull R \<and> \<not> IsBeingDestroyed s \<and> \<not> Replied R then
        (let s1 = elog ''No reply to message {0}({1})'' [AStr (Method R), AJson (ID R)] s
         in if AssertionsEnabled s1 then
              (Fails (AssertionFailed ''must reply to all calls!''), s1)
            else
              (case ReplyOnce_call R
                      (Inl (LSPError ''server failed to reply'' InternalError)) s1 of
                 (Returns R', s2) \<Rightarrow> (Returns (), s2)
               | (Fails f, s2) \<Rightarrow> (Fails f, s2)))
      else (Returns (), s))"

text \<open>
  A handler that invokes the handle it was given several times, one result after the other,
  as long as the calls return.
\<close>

fun ReplyOnce_calls ::
  "ReplyOnce \<Rightarrow> Expected list \<Rightarrow> 'cb ClangdLSPServer \<Rightarrow> ReplyOnce outcome \<times> 'cb ClangdLSPServer" where
  "ReplyOnce_calls R [] s = (Returns R, s)"
| "ReplyOnce_calls R (x # xs) s =
     (case ReplyOnce_call R x s of
        (Returns R', s') \<Rightarrow> ReplyOnce_calls R' xs s'
      | (Fails f, s') \<Rightarrow> (Fails f, s'))"

text \<open>Invoking a handle and then destroying it, as a function does with a handle it owns.\<close>

definition reply_and_destroy ::
  "ReplyOnce \<Rightarrow> Expected \<Rightarrow> 'cb ClangdLSPServer \<Rightarrow> unit outcome \<times> 'cb ClangdLSPServer" where
  "reply_and_destroy R Reply s =
     (case ReplyOnce_call R Reply s of
        (Returns R', s1) \<Rightarrow> ReplyOnce_dtor R' s1
      | (Fails f, s1) \<Rightarrow> (Fails f, s1))"

text \<open>
  The constructor of \<^verbatim>\<open>ClangdLSPServer\<close>, from the build configuration and the
  constructor's arguments; the handler tables it fills are arguments of the dispatcher below.
\<close>

definition ClangdLSPServer_new ::
  "bool \<Rightarrow> string option \<Rightarrow> bool \<Rightarrow> OffsetEncoding option \<Rightarrow> Options \<Rightarrow> 'cb ClangdLSPServer" where
  "ClangdLSPServer_new Assertions Dir UseDir ForcedOffsetEncoding Opts =
     \<lparr>AssertionsEnabled = Assertions, IsBeingDestroyed = False,
      NegotiatedOffsetEncoding = ForcedOffsetEncoding, ClangdServerOpts = Opts,
      UseDirBasedCDB = UseDir, CompileCommandsDir = Dir, BaseCDB = None, CDB = None,
      Server = None, NextCallID = 0, ReplyCallbacks = [], RequestCancelers = Map.empty,
      NextRequestCookie = 0, NextTask = 0, Trace = []\<rparr>"

text \<open>
  The endpoint as the constructor leaves it when it is given no compile-commands directory,
  no directory-based compilation database, no forced offset encoding and default options.
\<close>

definition fresh_endpoint :: "bool \<Rightarrow> nat ClangdLSPServer" where
  "fresh_endpoint Assertions =
     ClangdLSPServer_new Assertions None False None
       \<lparr>SemanticHighlighting = False, WorkspaceRoot = None, QueryDriverGlobs = [],
        ResourceDir = None\<rparr>"

text \<open>\<^verbatim>\<open>ClangdLSPServer::~ClangdLSPServer\<close>.\<close>

definition ClangdLSPServer_dtor :: "'cb ClangdLSPServer \<Rightarrow> 'cb ClangdLSPServer" where
  "ClangdLSPServer_dtor s = s\<lparr>IsBeingDestroyed := True\<rparr>"

subsection \<open>The cancellation registry\<close>

text \<open>
  Modelled from the spec: \<^verbatim>\<open>cancelableTask\<close> (Cancellation.h is not among the
  sources) hands out a fresh pair of a task context and its cancel signal. Tasks are numbered
  as they are created; the canceler of task \<open>t\<close>, when invoked, leaves \<open>Fire t\<close> in
  the trace.
\<close>

definition cancelableTask :: "'cb ClangdLSPServer \<Rightarrow> nat \<times> 'cb ClangdLSPServer" where
  "cancelableTask s = (NextTask s, s\<lparr>NextTask := Suc (NextTask s)\<rparr>)"

text \<open>
  \<^verbatim>\<open>cancelableRequestContext\<close>. \<^verbatim>\<open>llvm::to_string\<close> on a JSON value is
  the parameter \<open>to_string\<close>. The context returned is represented by what its scope-exit
  action has captured: the key and the cookie.
\<close>

definition cancelableRequestContext ::
  "(json \<Rightarrow> string) \<Rightarrow> json \<Rightarrow> 'cb ClangdLSPServer \<Rightarrow> (string \<times> 32 word) \<times> 'cb ClangdLSPServer" where
  "cancelableRequestContext to_string ReqID s =
     (let (Task, s1) = cancelableTask s;
          StrID = to_string ReqID;
          Cookie = NextRequestCookie s1;
          s2 = s1\<lparr>NextRequestCookie := Cookie + 1\<rparr>;
          s3 = emit (Acquire RequestCancelersMutex) s2;
          s4 = s3\<lparr>RequestCancelers := (RequestCancelers s3)(StrID \<mapsto> (Task, Cookie))\<rparr>;
          s5 = emit (Release RequestCancelersMutex) s4
      in ((StrID, Cookie), s5))"

text \<open>
  The scope-exit action of that context, which runs when the last reference to the context
  goes away.
\<close>

definition requestContext_exit ::
  "string \<times> 32 word \<Rightarrow> 'cb ClangdLSPServer \<Rightarrow> 'cb ClangdLSPServer" where
  "requestContext_exit Ctx s =
     (let StrID = fst Ctx;
          Cookie = snd Ctx;
          s1 = emit (Acquire RequestCancelersMutex) s;
          s2 = (case RequestCancelers s1 StrID of
                  Some It \<Rightarrow>
                    if snd It = Cookie
                    then s1\<lparr>RequestCancelers := (RequestCancelers s1)(StrID := None)\<rparr>
                    else s1
                | None \<Rightarrow> s1)
      in emit (Release RequestCancelersMutex) s2)"

text \<open>\<^verbatim>\<open>onCancel\<close>.\<close>

definition onCancel ::
  "(json \<Rightarrow> string) \<Rightarrow> json \<Rightarrow> 'cb ClangdLSPServer \<Rightarrow> 'cb ClangdLSPServer" where
  "onCancel to_string Params s =
     (case (case getAsObject Params of Some Obj \<Rightarrow> map_of Obj ''id'' | None \<Rightarrow> None) of
        None \<Rightarrow> elog ''Bad cancellation request: {0}'' [AJson Params] s
      | Some ReqID \<Rightarrow>
          (let StrID = to_string ReqID;
               s1 = emit (Acquire RequestCancelersMutex) s;
               s2 = (case RequestCancelers s1 StrID of
                       Some It \<Rightarrow> emit (Fire (fst It)) s1
                     | None \<Rightarrow> s1)
           in emit (Release RequestCancelersMutex) s2))"

text \<open>
  A stand-in for \<^verbatim>\<open>llvm::to_string\<close> in examples, which keeps the IDs 5 and 6 apart.
\<close>

definition example_key :: "json \<Rightarrow> string" where
  "example_key j = (if j = JInteger 5 then ''5'' else ''6'')"

text \<open>
  What can happen at the registry, in any order: a call arrives and its context is registered,
  a context exits, a cancellation request arrives.
\<close>

datatype registry_event = Begin json | End "string \<times> 32 word" | Cancel json

fun cancellation_run ::
  "(json \<Rightarrow> string) \<Rightarrow> registry_event list \<Rightarrow> 'cb ClangdLSPServer \<Rightarrow> 'cb ClangdLSPServer" where
  "cancellation_run to_string [] s = s"
| "cancellation_run to_string (Begin ReqID # evs) s =
     cancellation_run to_string evs (snd (cancelableRequestContext to_string ReqID s))"
| "cancellation_run to_string (End Ctx # evs) s =
     cancellation_run to_string evs (requestContext_exit Ctx s)"
| "cancellation_run to_string (Cancel Params # evs) s =
     cancellation_run to_string evs (onCancel to_string Params s)"

fun begins :: "registry_event list \<Rightarrow> nat" where
  "begins [] = 0"
| "begins (Begin ReqID # evs) = Suc (begins evs)"
| "begins (_ # evs) = begins evs"

text \<open>
  So many calls with the given ID that come and go, one after the other, \<open>Cookie\<close> being
  the cookie that the first of them is given.
\<close>

fun finished_calls ::
  "(json \<Rightarrow> string) \<Rightarrow> json \<Rightarrow> 32 word \<Rightarrow> nat \<Rightarrow> registry_event list" where
  "finished_calls to_string ReqID Cookie 0 = []"
| "finished_calls to_string ReqID Cookie (Suc n) =
     Begin ReqID # End (to_string ReqID, Cookie) # finished_calls to_string ReqID (Cookie + 1) n"

text \<open>
  A call with the ID 5 registers at a new endpoint and stays in flight, \<open>n\<close> calls with
  the ID 6 come and go, and a second call with the ID 5 registers: the context of that second
  call and the endpoint after its registration.
\<close>

definition reused_id_registration :: "nat \<Rightarrow> (string \<times> 32 word) \<times> nat ClangdLSPServer" where
  "reused_id_registration n =
     cancelableRequestContext example_key (JInteger 5)
       (cancellation_run example_key (finished_calls example_key (JInteger 6) 1 n)
          (snd (cancelableRequestContext example_key (JInteger 5) (fresh_endpoint False))))"

subsection \<open>The outbound call registry\<close>

definition MaxReplayCallbacks :: int where
  "MaxReplayCallbacks = 100"

text \<open>
  \<^verbatim>\<open>bindReply\<close>. \<^verbatim>\<open>ID = NextCallID++\<close> is on a counter of 32 bits: the ID
  is the signed value of the counter before the increment.
\<close>

definition bindReply :: "'cb \<Rightarrow> 'cb ClangdLSPServer \<Rightarrow> json \<times> 'cb ClangdLSPServer" where
  "bindReply Reply s =
     (let s1 = emit (Acquire CallMutex) s;
          CallID = NextCallID s1;
          s2 = s1\<lparr>NextCallID := CallID + 1\<rparr>;
          s3 = s2\<lparr>ReplyCallbacks := ReplyCallbacks s2 @ [(sint CallID, Reply)]\<rparr>;
          (OldestCB, s4) =
            (if int (length (ReplyCallbacks s3)) > MaxReplayCallbacks then
               (case ReplyCallbacks s3 of
                  front # rest \<Rightarrow>
                    (Some front,
                     (elog ''more than {0} outstanding LSP calls, forgetting about {1}''
                        [AInt MaxReplayCallbacks, AInt (fst front)] s3)
                       \<lparr>ReplyCallbacks := rest\<rparr>)
                | [] \<Rightarrow> (None, s3))
             else (None, s3));
          s5 = emit (Release CallMutex) s4;
          s6 = (case OldestCB of
                  Some Old \<Rightarrow>
                    emit (Invoke (snd Old)
                            (Inl (StringError
                                    ''failed to receive a client reply for request ({0})''
                                    [AInt (fst Old)]))) s5
                | None \<Rightarrow> s5)
      in (JInteger (sint CallID), s6))"

text \<open>
  The loop of \<^verbatim>\<open>onReply\<close> over \<^verbatim>\<open>ReplyCallbacks\<close>: the callback of the
  first entry with the given ID, if there is one, and the entries without it.
\<close>

fun findReplyCallback :: "int \<Rightarrow> (int \<times> 'cb) list \<Rightarrow> 'cb option \<times> (int \<times> 'cb) list" where
  "findReplyCallback IntID [] = (None, [])"
| "findReplyCallback IntID (e # es) =
     (if fst e = IntID then (Some (snd e), es)
      else (let (h, es') = findReplyCallback IntID es in (h, e # es')))"

text \<open>\<^verbatim>\<open>onReply\<close>.\<close>

definition onReply ::
  "json \<Rightarrow> Expected \<Rightarrow> 'cb ClangdLSPServer \<Rightarrow> bool \<times> 'cb ClangdLSPServer" where
  "onReply ReqID Result s =
     (let (ReplyHandler, s1) =
            (case getAsInteger ReqID of
               Some IntID \<Rightarrow>
                 (let s' = emit (Acquire CallMutex) s;
                      (h, es) = findReplyCallback IntID (ReplyCallbacks s')
                  in (h, emit (Release CallMutex) (s'\<lparr>ReplyCallbacks := es\<rparr>)))
             | None \<Rightarrow> (None, s));
          s2 = (case Result of
                  Inr v \<Rightarrow> log ''<-- reply({0})'' [AJson ReqID] s1
                | Inl Err \<Rightarrow> log ''<-- reply({0}) error: {1}'' [AJson ReqID, AErr Err] s1)
      in (True,
          case ReplyHandler of
            Some cb \<Rightarrow> emit (Invoke cb Result) s2
          | None \<Rightarrow>
              elog ''received a reply with ID {0}, but there was no such call''
                [AJson ReqID] s2))"

text \<open>\<^verbatim>\<open>ClangdLSPServer::callRaw\<close> and \<^verbatim>\<open>ClangdLSPServer::notify\<close>.\<close>

definition callRaw :: "string \<Rightarrow> json \<Rightarrow> 'cb \<Rightarrow> 'cb ClangdLSPServer \<Rightarrow> 'cb ClangdLSPServer" where
  "callRaw Meth Params CB s =
     (let (ReqID, s1) = bindReply CB s;
          s2 = log ''--> {0}({1})'' [AStr Meth, AJson ReqID] s1
      in emit (Release TranspWriter)
           (emit (Write (Transp_call Meth Params ReqID)) (emit (Acquire TranspWriter) s2)))"

definition notify :: "string \<Rightarrow> json \<Rightarrow> 'cb ClangdLSPServer \<Rightarrow> 'cb ClangdLSPServer" where
  "notify Meth Params s =
     emit (Release TranspWriter)
       (emit (Write (Transp_notify Meth Params))
          (emit (Acquire TranspWriter) (log ''--> {0}'' [AStr Meth] s)))"

text \<open>
  A run of the registry: outbound calls being registered and replies arriving, in any order.
\<close>

datatype 'cb registry_op = Register 'cb | Answer json Expected

fun registry_run :: "'cb registry_op list \<Rightarrow> 'cb ClangdLSPServer \<Rightarrow> 'cb ClangdLSPServer" where
  "registry_run [] s = s"
| "registry_run (Register cb # ops) s = registry_run ops (snd (bindReply cb s))"
| "registry_run (Answer ReqID Result # ops) s = registry_run ops (snd (onReply ReqID Result s))"

subsection \<open>The dispatcher\<close>

text \<open>
  A handler is a \<^verbatim>\<open>std::function\<close> held in the table \<^verbatim>\<open>Notifications\<close> or
  \<^verbatim>\<open>Calls\<close>: here a function on the state of the endpoint, giving what the handler
  has done when it returns. A call handler receives the handle by value; the Boolean it
  returns says whether it has kept a reference to the context it ran in (as a handler does
  that passes its work on to another thread), in which case the scope-exit action of that
  context runs later and not when \<^verbatim>\<open>onCall\<close> returns.
\<close>

type_synonym 'cb NotifyHandler = "json \<Rightarrow> 'cb ClangdLSPServer \<Rightarrow> 'cb ClangdLSPServer"

type_synonym 'cb CallHandler =
  "json \<Rightarrow> ReplyOnce \<Rightarrow> 'cb ClangdLSPServer \<Rightarrow> bool outcome \<times> 'cb ClangdLSPServer"

text \<open>\<^verbatim>\<open>onNotify\<close>.\<close>

definition onNotify ::
  "(json \<Rightarrow> string) \<Rightarrow> (string \<Rightarrow> 'cb NotifyHandler option) \<Rightarrow> string \<Rightarrow> json \<Rightarrow>
     'cb ClangdLSPServer \<Rightarrow> bool \<times> 'cb ClangdLSPServer" where
  "onNotify to_string Notifications Meth Params s =
     (let s1 = log ''<-- {0}'' [AStr Meth] s
      in if Meth = ''exit'' then (False, s1)
         else if Server s1 = None then
           (True, elog ''Notification {0} before initialization'' [AStr Meth] s1)
         else if Meth = ''$/cancelRequest'' then (True, onCancel to_string Params s1)
         else (case Notifications Meth of
                 Some Handler \<Rightarrow> (True, Handler Params s1)
               | None \<Rightarrow> (True, log ''unhandled notification {0}'' [AStr Meth] s1)))"

text \<open>
  The end of \<^verbatim>\<open>onCall\<close>: the local \<^verbatim>\<open>Reply\<close> is destroyed, then
  \<^verbatim>\<open>WithCancel\<close> gives up its reference to the context.
\<close>

definition onCall_return ::
  "string \<times> 32 word \<Rightarrow> ReplyOnce \<Rightarrow> bool \<Rightarrow> 'cb ClangdLSPServer \<Rightarrow>
     bool outcome \<times> 'cb ClangdLSPServer" where
  "onCall_return WithCancel Reply Kept s =
     (case ReplyOnce_dtor Reply s of
        (Returns u, s1) \<Rightarrow>
          (Returns True, if Kept then s1 else requestContext_exit WithCancel s1)
      | (Fails f, s1) \<Rightarrow> (Fails f, s1))"

text \<open>\<^verbatim>\<open>onCall\<close>.\<close>

definition onCall ::
  "(json \<Rightarrow> string) \<Rightarrow> (string \<Rightarrow> 'cb CallHandler option) \<Rightarrow> string \<Rightarrow> json \<Rightarrow> json \<Rightarrow>
     'cb ClangdLSPServer \<Rightarrow> bool outcome \<times> 'cb ClangdLSPServer" where
  "onCall to_string Calls Meth Params ReqID s =
     (let (WithCancel, s1) = cancelableRequestContext to_string ReqID s;
          Reply = ReplyOnce_new ReqID Meth;
          s2 = log ''<-- {0}({1})'' [AStr Meth, AJson ReqID] s1
      in if Server s2 = None \<and> Meth \<noteq> ''initialize'' then
           (case ReplyOnce_call Reply
                   (Inl (LSPError ''server not initialized'' ServerNotInitialized))
                   (elog ''Call {0} before initialization.'' [AStr Meth] s2) of
              (Returns Reply', s3) \<Rightarrow> onCall_return WithCancel Reply' False s3
            | (Fails f, s3) \<Rightarrow> (Fails f, s3))
         else
           (case Calls Meth of
              Some Handler \<Rightarrow>
                (let (Moved, Reply') = ReplyOnce_move Reply
                 in case Handler Params Moved s2 of
                      (Returns Kept, s3) \<Rightarrow> onCall_return WithCancel Reply' Kept s3
                    | (Fails f, s3) \<Rightarrow> (Fails f, s3))
            | None \<Rightarrow>
                (case ReplyOnce_call Reply
                        (Inl (LSPError ''method not found'' MethodNotFound)) s2 of
                   (Returns Reply', s3) \<Rightarrow> onCall_return WithCancel Reply' False s3
                 | (Fails f, s3) \<Rightarrow> (Fails f, s3))))"

text \<open>
  The two overloads of \<^verbatim>\<open>bind\<close>, as the function each stores in its table.
  \<^verbatim>\<open>fromJSON\<close> is the parameter \<open>fromJSON\<close>, giving the decoded parameters or
  nothing. A method of the server bound to a call has the type of a call handler, on decoded
  parameters.
\<close>

definition bind_call ::
  "string \<Rightarrow> (json \<Rightarrow> 'p option) \<Rightarrow>
     ('p \<Rightarrow> ReplyOnce \<Rightarrow> 'cb ClangdLSPServer \<Rightarrow> bool outcome \<times> 'cb ClangdLSPServer) \<Rightarrow>
     'cb CallHandler" where
  "bind_call Meth fromJSON Handler RawParams Reply s =
     (case fromJSON RawParams of
        Some P \<Rightarrow>
          (let (Moved, Reply') = ReplyOnce_move Reply
           in case Handler P Moved s of
                (Returns Kept, s1) \<Rightarrow>
                  (case ReplyOnce_dtor Reply' s1 of
                     (Returns u, s2) \<Rightarrow> (Returns Kept, s2)
                   | (Fails f, s2) \<Rightarrow> (Fails f, s2))
              | (Fails f, s1) \<Rightarrow> (Fails f, s1))
      | None \<Rightarrow>
          (case reply_and_destroy Reply
                  (Inl (LSPError ''failed to decode request'' InvalidRequest))
                  (elog ''Failed to decode {0} request.'' [AStr Meth] s) of
             (Returns u, s1) \<Rightarrow> (Returns False, s1)
           | (Fails f, s1) \<Rightarrow> (Fails f, s1)))"

definition bind_notify ::
  "string \<Rightarrow> (json \<Rightarrow> 'p option) \<Rightarrow> ('p \<Rightarrow> 'cb ClangdLSPServer \<Rightarrow> 'cb ClangdLSPServer) \<Rightarrow>
     'cb NotifyHandler" where
  "bind_notify Meth fromJSON Handler RawParams s =
     (case fromJSON RawParams of
        None \<Rightarrow> elog ''Failed to decode {0} request.'' [AStr Meth] s
      | Some P \<Rightarrow> Handler P s)"

text \<open>
  Two methods a server could bind to a call: one lets go of the handle without invoking it;
  the other passes the handle and the context on to another thread and returns.
\<close>

definition drop_handle ::
  "'p \<Rightarrow> ReplyOnce \<Rightarrow> 'cb ClangdLSPServer \<Rightarrow> bool outcome \<times> 'cb ClangdLSPServer" where
  "drop_handle P Reply s =
     (case ReplyOnce_dtor Reply s of
        (Returns u, s1) \<Rightarrow> (Returns False, s1)
      | (Fails f, s1) \<Rightarrow> (Fails f, s1))"

definition park_handle ::
  "'p \<Rightarrow> ReplyOnce \<Rightarrow> 'cb ClangdLSPServer \<Rightarrow> bool outcome \<times> 'cb ClangdLSPServer" where
  "park_handle P Reply s = (Returns True, s)"

subsection \<open>onInitialize\<close>

text \<open>
  The fields of \<^verbatim>\<open>InitializeParams\<close> that are read up to the construction of the
  server. \<open>rootUri\<close> holds the file of the URI, which is empty when the URI converts to
  false.
\<close>

record InitializeParams =
  offsetEncoding :: "OffsetEncoding list option"
  capabilities_SemanticHighlighting :: bool
  rootUri :: "string option"
  rootPath :: "string option"
  compilationDatabasePath :: "string option"
  fallbackFlags :: "string list"

text \<open>The loop that picks the first supported encoding, \<open>Fallback\<close> being the value set before it.\<close>

fun firstSupported :: "OffsetEncoding list \<Rightarrow> OffsetEncoding \<Rightarrow> OffsetEncoding" where
  "firstSupported [] Fallback = Fallback"
| "firstSupported (Supported # Rest) Fallback =
     (if Supported \<noteq> UnsupportedEncoding then Supported else firstSupported Rest Fallback)"

text \<open>
  The first statements of \<^verbatim>\<open>ClangdLSPServer::onInitialize\<close>, up to the test of
  \<^verbatim>\<open>Server\<close>: the offset encoding is negotiated, unless it has been already, and
  the options take the client's semantic-highlighting capability and workspace root.
\<close>

definition onInitialize_options :: "InitializeParams \<Rightarrow> 'cb ClangdLSPServer \<Rightarrow> 'cb ClangdLSPServer" where
  "onInitialize_options Params s =
     (let s1 = (case offsetEncoding Params of
                  Some Encodings \<Rightarrow>
                    if NegotiatedOffsetEncoding s = None
                    then s\<lparr>NegotiatedOffsetEncoding := Some (firstSupported Encodings UTF16)\<rparr>
                    else s
                | None \<Rightarrow> s);
          s2 = s1\<lparr>ClangdServerOpts :=
                 (ClangdServerOpts s1)
                   \<lparr>SemanticHighlighting := capabilities_SemanticHighlighting Params\<rparr>\<rparr>
      in if rootUri Params \<noteq> None \<and> rootUri Params \<noteq> Some [] then
           s2\<lparr>ClangdServerOpts := (ClangdServerOpts s2)\<lparr>WorkspaceRoot := rootUri Params\<rparr>\<rparr>
         else if rootPath Params \<noteq> None \<and> rootPath Params \<noteq> Some [] then
           s2\<lparr>ClangdServerOpts := (ClangdServerOpts s2)\<lparr>WorkspaceRoot := rootPath Params\<rparr>\<rparr>
         else s2)"

text \<open>
  \<^verbatim>\<open>ClangdLSPServer::onInitialize\<close>. What follows the construction of the server
  (applying the configuration settings, recording the client's capabilities and building the
  capabilities object that is the reply) works on collaborators outside the dispatcher and
  is the parameter \<open>Configure\<close>, which gives the reply and the state. The handle is destroyed
  when the function is left.
\<close>

definition onInitialize ::
  "(InitializeParams \<Rightarrow> 'cb ClangdLSPServer \<Rightarrow> json \<times> 'cb ClangdLSPServer) \<Rightarrow>
     InitializeParams \<Rightarrow> ReplyOnce \<Rightarrow> 'cb ClangdLSPServer \<Rightarrow> bool outcome \<times> 'cb ClangdLSPServer" where
  "onInitialize Configure Params Reply s =
     (let s3 = onInitialize_options Params s
      in if Server s3 \<noteq> None then
           (case reply_and_destroy Reply
                   (Inl (LSPError ''server already initialized'' InvalidRequest)) s3 of
              (Returns u, s4) \<Rightarrow> (Returns False, s4)
            | (Fails f, s4) \<Rightarrow> (Fails f, s4))
         else
           (let s4 = (case compilationDatabasePath Params of
                        Some Dir \<Rightarrow> s3\<lparr>CompileCommandsDir := Some Dir\<rparr>
                      | None \<Rightarrow> s3);
                s5 = (if UseDirBasedCDB s4 then
                        (emit (Construct DirectoryBasedCDB) s4)
                          \<lparr>BaseCDB :=
                             Some (CompileCommandsDir s4, QueryDriverGlobs (ClangdServerOpts s4))\<rparr>
                      else s4);
                s6 = (emit (Construct OverlayCDB) s5)
                       \<lparr>CDB :=
                          Some (BaseCDB s5, fallbackFlags Params,
                                ResourceDir (ClangdServerOpts s5))\<rparr>;
                s7 = (emit (Construct ClangdServer) s6)\<lparr>Server := Some (ClangdServerOpts s6)\<rparr>;
                (Result, s8) = Configure Params s7
            in case reply_and_destroy Reply (Inr Result) s8 of
                 (Returns u, s9) \<Rightarrow> (Returns False, s9)
               | (Fails f, s9) \<Rightarrow> (Fails f, s9)))"

section \<open>Properties\<close>

lemmas effects = emit_def log_def elog_def

lemma frames_append: "frames (xs @ ys) = frames xs @ frames ys"
  by (induction xs rule: frames.induct) simp_all

lemma fired_append: "fired (xs @ ys) = fired xs @ fired ys"
  by (induction xs rule: fired.induct) simp_all

lemma fresh_endpoint_fields:
  "AssertionsEnabled (fresh_endpoint a) = a"
  "IsBeingDestroyed (fresh_endpoint a) = False"
  "Server (fresh_endpoint a) = None"
  "ReplyCallbacks (fresh_endpoint a) = []"
  "NextCallID (fresh_endpoint a) = 0"
  "NextRequestCookie (fresh_endpoint a) = 0"
  "NextTask (fresh_endpoint a) = 0"
  "RequestCancelers (fresh_endpoint a) = Map.empty"
  "Trace (fresh_endpoint a) = []"
  by (simp_all add: fresh_endpoint_def ClangdLSPServer_new_def)

subsection \<open>The reply-once handle\<close>

lemma ReplyOnce_call_first:
  assumes "ServerNonNull R" and "\<not> Replied R"
  shows "ReplyOnce_call R X s =
     (Returns (R\<lparr>Replied := True, ID := JNull\<rparr>),
      s\<lparr>Trace := Trace s @
         [case X of
            Inr v \<Rightarrow> Log ''--> reply:{0}({1}) {2:ms}'' [AStr (Method R), AJson (ID R), ADuration]
          | Inl Err \<Rightarrow>
              Log ''--> reply:{0}({1}) {2:ms}, error: {3}''
                [AStr (Method R), AJson (ID R), ADuration, AErr Err],
          Acquire TranspWriter, Write (Transp_reply (ID R) X), Release TranspWriter]\<rparr>)"
  using assms by (simp add: ReplyOnce_call_def effects split: sum.split)

lemma ReplyOnce_call_again:
  assumes "ServerNonNull R" and "Replied R"
  shows "ReplyOnce_call R Y s =
     (if AssertionsEnabled s then Fails (AssertionFailed ''must reply to each call only once!'')
      else Returns R,
      s\<lparr>Trace := Trace s @
         [ELog ''Replied twice to message {0}({1})'' [AStr (Method R), AJson (ID R)]]\<rparr>)"
  using assms by (simp add: ReplyOnce_call_def effects)

lemma ReplyOnce_calls_replied:
  assumes "ServerNonNull R" and "Replied R"
  shows "frames (Trace (snd (ReplyOnce_calls R Xs s))) = frames (Trace s)"
  using assms
proof (induction Xs arbitrary: s)
  case Nil
  then show ?case by simp
next
  case (Cons X Xs)
  show ?case
  proof (cases "AssertionsEnabled s")
    case True
    then show ?thesis
      using Cons.prems by (simp add: ReplyOnce_call_again frames_append)
  next
    case False
    then show ?thesis
      using Cons.prems Cons.IH by (simp add: ReplyOnce_call_again frames_append)
  qed
qed

lemma ReplyOnce_dtor_replied: "Replied R \<Longrightarrow> ReplyOnce_dtor R s = (Returns (), s)"
  by (simp add: ReplyOnce_dtor_def)

lemma reply_and_destroy_first:
  assumes "ServerNonNull R" and "\<not> Replied R"
  shows "reply_and_destroy R X s =
     (Returns (),
      s\<lparr>Trace := Trace s @
         [case X of
            Inr v \<Rightarrow> Log ''--> reply:{0}({1}) {2:ms}'' [AStr (Method R), AJson (ID R), ADuration]
          | Inl Err \<Rightarrow>
              Log ''--> reply:{0}({1}) {2:ms}, error: {3}''
                [AStr (Method R), AJson (ID R), ADuration, AErr Err],
          Acquire TranspWriter, Write (Transp_reply (ID R) X), Release TranspWriter]\<rparr>)"
  using assms by (simp add: reply_and_destroy_def ReplyOnce_call_first ReplyOnce_dtor_replied)

text \<open>
  C1. A handle that has a server and has not replied (as \<^verbatim>\<open>onCall\<close> makes it for every
  inbound call) answers its first invocation by setting \<open>Replied\<close> and writing the reply
  for its ID to the transport between taking and releasing \<^verbatim>\<open>TranspWriter\<close>. Any
  further invocation of the handle only logs "Replied twice" (and then fails its assertion in
  a build with assertions). So, however often the handle is invoked, and whether or not it is
  destroyed afterwards, exactly one reply frame is written, the one of the first invocation.
\<close>

theorem ReplyOnce_writes_one_reply:
  assumes "ServerNonNull R" and "\<not> Replied R"
  shows "ReplyOnce_call R X s =
           (Returns (R\<lparr>Replied := True, ID := JNull\<rparr>),
            s\<lparr>Trace := Trace s @
               [case X of
                  Inr v \<Rightarrow>
                    Log ''--> reply:{0}({1}) {2:ms}'' [AStr (Method R), AJson (ID R), ADuration]
                | Inl Err \<Rightarrow>
                    Log ''--> reply:{0}({1}) {2:ms}, error: {3}''
                      [AStr (Method R), AJson (ID R), ADuration, AErr Err],
                Acquire TranspWriter, Write (Transp_reply (ID R) X), Release TranspWriter]\<rparr>) \<and>
         snd (ReplyOnce_call (R\<lparr>Replied := True, ID := JNull\<rparr>) Y s') =
           s'\<lparr>Trace := Trace s' @
              [ELog ''Replied twice to message {0}({1})'' [AStr (Method R), AJson JNull]]\<rparr> \<and>
         ReplyOnce_dtor (R\<lparr>Replied := True, ID := JNull\<rparr>) s' = (Returns (), s') \<and>
         frames (Trace (snd (ReplyOnce_calls R (X # Xs) s))) =
           frames (Trace s) @ [Transp_reply (ID R) X]"
proof (intro conjI)
  show "ReplyOnce_call R X s =
           (Returns (R\<lparr>Replied := True, ID := JNull\<rparr>),
            s\<lparr>Trace := Trace s @
               [case X of
                  Inr v \<Rightarrow>
                    Log ''--> reply:{0}({1}) {2:ms}'' [AStr (Method R), AJson (ID R), ADuration]
                | Inl Err \<Rightarrow>
                    Log ''--> reply:{0}({1}) {2:ms}, error: {3}''
                      [AStr (Method R), AJson (ID R), ADuration, AErr Err],
                Acquire TranspWriter, Write (Transp_reply (ID R) X), Release TranspWriter]\<rparr>)"
    using assms by (rule ReplyOnce_call_first)
  show "snd (ReplyOnce_call (R\<lparr>Replied := True, ID := JNull\<rparr>) Y s') =
           s'\<lparr>Trace := Trace s' @
              [ELog ''Replied twice to message {0}({1})'' [AStr (Method R), AJson JNull]]\<rparr>"
    using assms by (simp add: ReplyOnce_call_again)
  show "ReplyOnce_dtor (R\<lparr>Replied := True, ID := JNull\<rparr>) s' = (Returns (), s')"
    by (simp add: ReplyOnce_dtor_replied)
  show "frames (Trace (snd (ReplyOnce_calls R (X # Xs) s))) =
           frames (Trace s) @ [Transp_reply (ID R) X]"
    using assms
    by (simp add: ReplyOnce_call_first ReplyOnce_calls_replied frames_append split: sum.split)
qed

theorem ReplyOnce_writes_one_reply_witness:
  "ServerNonNull (ReplyOnce_new (JInteger 7) ''test/twice'') \<and>
   \<not> Replied (ReplyOnce_new (JInteger 7) ''test/twice'') \<and>
   frames (Trace (snd (ReplyOnce_calls (ReplyOnce_new (JInteger 7) ''test/twice'')
                         [Inr (JObject []), Inr (JObject [])] (fresh_endpoint False)))) =
     [Transp_reply (JInteger 7) (Inr (JObject []))]"
proof -
  have a: "ServerNonNull (ReplyOnce_new (JInteger 7) ''test/twice'')"
    and b: "\<not> Replied (ReplyOnce_new (JInteger 7) ''test/twice'')"
    and c: "ID (ReplyOnce_new (JInteger 7) ''test/twice'') = JInteger 7"
    by (simp_all add: ReplyOnce_new_def)
  show ?thesis
    using a b c
      ReplyOnce_writes_one_reply
        [OF a b, where X = "Inr (JObject [])" and s = "fresh_endpoint False"
           and Y = "Inr (JObject [])" and s' = "fresh_endpoint False"
           and Xs = "[Inr (JObject [])]"]
    by (simp del: ReplyOnce_calls.simps add: fresh_endpoint_fields)
qed

text \<open>
  C2, as the code has it. When a handle that has a server and has not replied is destroyed
  while the endpoint is not being destroyed, "No reply" is logged; then, in a build without
  assertions, the reply \<open>InternalError\<close>, "server failed to reply", is written for the
  handle's ID, and in a build with assertions the assertion "must reply to all calls!" fails
  and nothing is written. When the endpoint is being destroyed, the destructor does nothing.
\<close>

theorem ReplyOnce_dtor_unreplied:
  "(ServerNonNull R \<and> \<not> Replied R \<and> \<not> IsBeingDestroyed s \<and> \<not> AssertionsEnabled s \<longrightarrow>
      ReplyOnce_dtor R s =
        (Returns (),
         s\<lparr>Trace := Trace s @
            [ELog ''No reply to message {0}({1})'' [AStr (Method R), AJson (ID R)],
             Log ''--> reply:{0}({1}) {2:ms}, error: {3}''
               [AStr (Method R), AJson (ID R), ADuration,
                AErr (LSPError ''server failed to reply'' InternalError)],
             Acquire TranspWriter,
             Write (Transp_reply (ID R) (Inl (LSPError ''server failed to reply'' InternalError))),
             Release TranspWriter]\<rparr>)) \<and>
   (ServerNonNull R \<and> \<not> Replied R \<and> \<not> IsBeingDestroyed s \<and> AssertionsEnabled s \<longrightarrow>
      ReplyOnce_dtor R s =
        (Fails (AssertionFailed ''must reply to all calls!''),
         s\<lparr>Trace := Trace s @
            [ELog ''No reply to message {0}({1})'' [AStr (Method R), AJson (ID R)]]\<rparr>)) \<and>
   (IsBeingDestroyed s \<longrightarrow> ReplyOnce_dtor R s = (Returns (), s))"
  by (simp add: ReplyOnce_dtor_def ReplyOnce_call_def effects)

theorem ReplyOnce_dtor_unreplied_witness:
  "frames (Trace (snd (ReplyOnce_dtor (ReplyOnce_new (JInteger 7) ''test/drop'')
                         (fresh_endpoint False)))) =
     [Transp_reply (JInteger 7) (Inl (LSPError ''server failed to reply'' InternalError))] \<and>
   ReplyOnce_dtor (ReplyOnce_new (JInteger 7) ''test/drop'')
       (ClangdLSPServer_dtor (fresh_endpoint False)) =
     (Returns (), ClangdLSPServer_dtor (fresh_endpoint False))"
  using ReplyOnce_dtor_unreplied
      [of "ReplyOnce_new (JInteger 7) ''test/drop''" "fresh_endpoint False"]
    ReplyOnce_dtor_unreplied
      [of "ReplyOnce_new (JInteger 7) ''test/drop''" "ClangdLSPServer_dtor (fresh_endpoint False)"]
  by (simp add: ReplyOnce_new_def fresh_endpoint_fields ClangdLSPServer_dtor_def)

theorem ReplyOnce_dtor_assertion_counterexample:
  "ServerNonNull (ReplyOnce_new (JInteger 7) ''test/drop'') \<and>
   \<not> Replied (ReplyOnce_new (JInteger 7) ''test/drop'') \<and>
   \<not> IsBeingDestroyed (fresh_endpoint True) \<and>
   ReplyOnce_dtor (ReplyOnce_new (JInteger 7) ''test/drop'') (fresh_endpoint True) =
     (Fails (AssertionFailed ''must reply to all calls!''),
      (fresh_endpoint True)
        \<lparr>Trace := [ELog ''No reply to message {0}({1})''
                     [AStr ''test/drop'', AJson (JInteger 7)]]\<rparr>) \<and>
   frames (Trace (snd (ReplyOnce_dtor (ReplyOnce_new (JInteger 7) ''test/drop'')
                         (fresh_endpoint True)))) = []"
  by (simp add: ReplyOnce_dtor_def ReplyOnce_new_def fresh_endpoint_fields effects)

subsection \<open>Dispatching a call\<close>

lemmas registration = cancelableRequestContext_def cancelableTask_def

lemma onCall_return_moved:
  "onCall_return Ctx (snd (ReplyOnce_move R)) Kept s =
     (Returns True, if Kept then s else requestContext_exit Ctx s)"
  by (simp add: onCall_return_def ReplyOnce_move_def ReplyOnce_dtor_def)

lemma onCall_dispatch:
  assumes "Server s \<noteq> None \<or> Meth = ''initialize''" and "Calls Meth = Some Handler"
  shows "onCall to_string Calls Meth Params ReqID s =
     (case Handler Params (ReplyOnce_new ReqID Meth)
             (log ''<-- {0}({1})'' [AStr Meth, AJson ReqID]
                (snd (cancelableRequestContext to_string ReqID s))) of
        (Returns Kept, s3) \<Rightarrow>
          (Returns True,
           if Kept then s3
           else requestContext_exit (fst (cancelableRequestContext to_string ReqID s)) s3)
      | (Fails f, s3) \<Rightarrow> (Fails f, s3))"
proof -
  have srv: "Server (log Fmt Args (snd (cancelableRequestContext to_string ReqID s))) = Server s"
    for Fmt Args
    by (simp add: registration effects Let_def)
  have moved: "fst (ReplyOnce_move R) = R" for R
    by (simp add: ReplyOnce_move_def)
  have gate: "\<not> (Server s = None \<and> Meth \<noteq> ''initialize'')"
    using assms(1) by blast
  show ?thesis
    unfolding onCall_def Let_def split_beta srv
    by (simp only: gate if_False assms(2) option.case moved onCall_return_moved)
qed

lemma bind_call_decoded:
  assumes "fromJSON RawParams = Some P"
  shows "bind_call Meth fromJSON Handler RawParams Reply s = Handler P Reply s"
proof -
  have "ReplyOnce_dtor (snd (ReplyOnce_move Reply)) s' = (Returns (), s')"
    for s' :: "'b ClangdLSPServer"
    by (simp add: ReplyOnce_move_def ReplyOnce_dtor_def)
  then show ?thesis
    using assms
    by (simp add: bind_call_def ReplyOnce_move_def split: prod.split outcome.split)
qed

lemma bind_call_undecoded:
  assumes "fromJSON RawParams = None" and "ServerNonNull Reply" and "\<not> Replied Reply"
  shows "bind_call Meth fromJSON Handler RawParams Reply s =
        (Returns False,
         s\<lparr>Trace := Trace s @
            [ELog ''Failed to decode {0} request.'' [AStr Meth],
             Log ''--> reply:{0}({1}) {2:ms}, error: {3}''
               [AStr (Method Reply), AJson (ID Reply), ADuration,
                AErr (LSPError ''failed to decode request'' InvalidRequest)],
             Acquire TranspWriter,
             Write (Transp_reply (ID Reply)
                      (Inl (LSPError ''failed to decode request'' InvalidRequest))),
             Release TranspWriter]\<rparr>)"
  using assms by (simp add: bind_call_def reply_and_destroy_first effects)

lemma onCall_undecoded:
  assumes "Server s \<noteq> None \<or> Meth = ''initialize''"
    and "Calls Meth = Some (bind_call Meth fromJSON Handler)"
    and "fromJSON Params = None"
  shows "onCall to_string Calls Meth Params ReqID s =
      (Returns True,
       s\<lparr>RequestCancelers := (RequestCancelers s)(to_string ReqID := None),
         NextRequestCookie := NextRequestCookie s + 1,
         NextTask := Suc (NextTask s),
         Trace := Trace s @
           [Acquire RequestCancelersMutex, Release RequestCancelersMutex,
            Log ''<-- {0}({1})'' [AStr Meth, AJson ReqID],
            ELog ''Failed to decode {0} request.'' [AStr Meth],
            Log ''--> reply:{0}({1}) {2:ms}, error: {3}''
              [AStr Meth, AJson ReqID, ADuration,
               AErr (LSPError ''failed to decode request'' InvalidRequest)],
            Acquire TranspWriter,
            Write (Transp_reply ReqID (Inl (LSPError ''failed to decode request'' InvalidRequest))),
            Release TranspWriter,
            Acquire RequestCancelersMutex, Release RequestCancelersMutex]\<rparr>)"
proof -
  have new: "ServerNonNull (ReplyOnce_new ReqID Meth)" "\<not> Replied (ReplyOnce_new ReqID Meth)"
    "ID (ReplyOnce_new ReqID Meth) = ReqID" "Method (ReplyOnce_new ReqID Meth) = Meth"
    by (simp_all add: ReplyOnce_new_def)
  have "onCall to_string Calls Meth Params ReqID s =
     (case bind_call Meth fromJSON Handler Params (ReplyOnce_new ReqID Meth)
             (log ''<-- {0}({1})'' [AStr Meth, AJson ReqID]
                (snd (cancelableRequestContext to_string ReqID s))) of
        (Returns Kept, s3) \<Rightarrow>
          (Returns True,
           if Kept then s3
           else requestContext_exit (fst (cancelableRequestContext to_string ReqID s)) s3)
      | (Fails f, s3) \<Rightarrow> (Fails f, s3))"
    by (rule onCall_dispatch) (rule assms)+
  then show ?thesis
    by (simp add: bind_call_undecoded [where fromJSON = fromJSON and RawParams = Params, OF assms(3) new(1,2)] new
        registration requestContext_exit_def effects Let_def)
qed

subsection \<open>The initialization gate\<close>

text \<open>
  C3. While the server has not been constructed, a call of any method but "initialize" is
  answered with \<open>ServerNotInitialized\<close> (code -32002), "server not initialized": the result
  of \<^verbatim>\<open>onCall\<close> is given in full and does not depend on the table \<open>Calls\<close>, so no call
  handler runs; the entry made for the call in the cancellation registry is gone again when
  \<^verbatim>\<open>onCall\<close> returns. A notification in that state is logged and dropped (or stops the
  loop, if it is "exit"), whatever the table \<open>Notifications\<close> holds.
\<close>

theorem onCall_before_initialize:
  assumes "Server s = None" and "Meth \<noteq> ''initialize''"
  shows "onCall to_string Calls Meth Params ReqID s =
      (Returns True,
       s\<lparr>RequestCancelers := (RequestCancelers s)(to_string ReqID := None),
         NextRequestCookie := NextRequestCookie s + 1,
         NextTask := Suc (NextTask s),
         Trace := Trace s @
           [Acquire RequestCancelersMutex, Release RequestCancelersMutex,
            Log ''<-- {0}({1})'' [AStr Meth, AJson ReqID],
            ELog ''Call {0} before initialization.'' [AStr Meth],
            Log ''--> reply:{0}({1}) {2:ms}, error: {3}''
              [AStr Meth, AJson ReqID, ADuration,
               AErr (LSPError ''server not initialized'' ServerNotInitialized)],
            Acquire TranspWriter,
            Write (Transp_reply ReqID (Inl (LSPError ''server not initialized'' ServerNotInitialized))),
            Release TranspWriter,
            Acquire RequestCancelersMutex, Release RequestCancelersMutex]\<rparr>) \<and>
    ErrorCode_value ServerNotInitialized = - 32002 \<and>
    onNotify to_string Notifications Meth Params s =
      (Meth \<noteq> ''exit'',
       if Meth = ''exit'' then s\<lparr>Trace := Trace s @ [Log ''<-- {0}'' [AStr Meth]]\<rparr>
       else s\<lparr>Trace := Trace s @
              [Log ''<-- {0}'' [AStr Meth],
               ELog ''Notification {0} before initialization'' [AStr Meth]]\<rparr>)"
  using assms
  by (simp add: onCall_def cancelableRequestContext_def cancelableTask_def
      requestContext_exit_def ReplyOnce_new_def
      ReplyOnce_call_def onCall_return_def ReplyOnce_dtor_def effects
      Let_def onNotify_def)

theorem onCall_before_initialize_witness:
  "Server (fresh_endpoint False) = None \<and> ''textDocument/hover'' \<noteq> ''initialize'' \<and>
   frames (Trace (snd (onCall (\<lambda>j. ''1'') Map.empty ''textDocument/hover'' (JObject [])
                         (JInteger 1) (fresh_endpoint False)))) =
     [Transp_reply (JInteger 1) (Inl (LSPError ''server not initialized'' ServerNotInitialized))]"
  using onCall_before_initialize [of "fresh_endpoint False" "''textDocument/hover''"
      "\<lambda>j. ''1''" Map.empty "JObject []" "JInteger 1" Map.empty]
  by (simp add: fresh_endpoint_fields)

subsection \<open>The cancellation registry\<close>

lemma requestContext_exit_counters:
  "NextRequestCookie (requestContext_exit Ctx s) = NextRequestCookie s"
  "NextTask (requestContext_exit Ctx s) = NextTask s"
  by (simp_all add: requestContext_exit_def effects Let_def split: option.split)

lemma onCancel_counters:
  "NextRequestCookie (onCancel to_string Params s) = NextRequestCookie s"
  "NextTask (onCancel to_string Params s) = NextTask s"
  by (simp_all add: onCancel_def effects Let_def split: option.split)

lemma cancelableRequestContext_counters:
  "NextRequestCookie (snd (cancelableRequestContext to_string ReqID s)) = NextRequestCookie s + 1"
  "NextTask (snd (cancelableRequestContext to_string ReqID s)) = Suc (NextTask s)"
  by (simp_all add: registration effects Let_def)

lemma cancellation_run_counters:
  "NextRequestCookie (cancellation_run to_string evs s) = NextRequestCookie s + of_nat (begins evs) \<and>
   NextTask (cancellation_run to_string evs s) = NextTask s + begins evs"
  by (induction to_string evs s rule: cancellation_run.induct)
    (simp_all add: requestContext_exit_counters onCancel_counters
       cancelableRequestContext_counters)

lemma cookie_wrapped:
  "(c + 1 + of_nat k = (c :: 32 word)) = (4294967296 dvd Suc k)"
proof -
  have "(of_nat (Suc k) = (0 :: 32 word)) = (4294967296 dvd Suc k)"
    by (simp add: word_of_nat_eq_0_iff del: of_nat_Suc)
  then show ?thesis
    by (simp add: add.assoc)
qed

lemma cancelableRequestContext_result:
  "cancelableRequestContext to_string ReqID s =
     ((to_string ReqID, NextRequestCookie s),
      s\<lparr>RequestCancelers :=
           (RequestCancelers s)(to_string ReqID \<mapsto> (NextTask s, NextRequestCookie s)),
        NextRequestCookie := NextRequestCookie s + 1,
        NextTask := Suc (NextTask s),
        Trace := Trace s @ [Acquire RequestCancelersMutex, Release RequestCancelersMutex]\<rparr>)"
  by (simp add: registration effects Let_def)

lemma cancelableRequestContext_entry:
  "RequestCancelers (snd (cancelableRequestContext to_string ReqID s)) (to_string ReqID) =
     Some (NextTask s, NextRequestCookie s)"
  by (simp add: cancelableRequestContext_result)

lemma cancelableRequestContext_context:
  "fst (cancelableRequestContext to_string ReqID s) = (to_string ReqID, NextRequestCookie s)"
  by (simp add: cancelableRequestContext_result)

lemma requestContext_exit_map:
  "RequestCancelers (requestContext_exit (StrID, Cookie) s) =
     (if \<exists>Task. RequestCancelers s StrID = Some (Task, Cookie)
      then (RequestCancelers s)(StrID := None) else RequestCancelers s)"
  by (cases "RequestCancelers s StrID") (auto simp add: requestContext_exit_def effects)

text \<open>
  Let a call register, let anything happen at the registry, and let a second call register
  under the same stringified ID. The second registration replaces whatever entry the key had:
  the map then holds the second task with the second cookie. A "$/cancelRequest" whose "id"
  has that string fires the canceler of the second task and no other. The scope-exit action
  of the second call's context erases the entry. None of this looks at the cookies.
\<close>

lemma request_id_reuse_overwrite:
  assumes "cancelableRequestContext to_string ReqID1 s = (Ctx1, s1)"
    and "cancelableRequestContext to_string ReqID2 (cancellation_run to_string evs s1) = (Ctx2, s2)"
    and "to_string ReqID2 = to_string ReqID1"
  shows "Ctx1 = (to_string ReqID1, NextRequestCookie s) \<and>
    Ctx2 = (to_string ReqID1, NextRequestCookie s + 1 + of_nat (begins evs)) \<and>
    RequestCancelers s1 (to_string ReqID1) = Some (NextTask s, NextRequestCookie s) \<and>
    RequestCancelers s2 (to_string ReqID1) =
      Some (Suc (NextTask s) + begins evs, NextRequestCookie s + 1 + of_nat (begins evs)) \<and>
    (map_of Obj ''id'' = Some ReqID3 \<and> to_string ReqID3 = to_string ReqID1 \<longrightarrow>
       onCancel to_string (JObject Obj) s2 =
         s2\<lparr>Trace := Trace s2 @
            [Acquire RequestCancelersMutex, Fire (Suc (NextTask s) + begins evs),
             Release RequestCancelersMutex]\<rparr>) \<and>
    requestContext_exit Ctx2 s2 =
      s2\<lparr>RequestCancelers := (RequestCancelers s2)(to_string ReqID1 := None),
         Trace := Trace s2 @ [Acquire RequestCancelersMutex, Release RequestCancelersMutex]\<rparr>"
proof -
  let ?mid = "cancellation_run to_string evs s1"
  let ?c = "NextRequestCookie s"
  let ?c2 = "?c + 1 + of_nat (begins evs)"
  let ?t2 = "Suc (NextTask s) + begins evs"
  have c1: "Ctx1 = (to_string ReqID1, ?c)"
    and s1: "s1 = snd (cancelableRequestContext to_string ReqID1 s)"
    using assms(1) by (simp_all add: cancelableRequestContext_result)
  have e1: "RequestCancelers s1 (to_string ReqID1) = Some (NextTask s, ?c)"
    by (simp add: s1 cancelableRequestContext_result)
  have mid: "NextRequestCookie ?mid = ?c2" "NextTask ?mid = ?t2"
    using cancellation_run_counters [of to_string evs s1]
    by (simp_all add: s1 cancelableRequestContext_counters)
  have c2: "Ctx2 = (to_string ReqID1, ?c2)"
    and s2: "s2 = ?mid\<lparr>RequestCancelers :=
                       (RequestCancelers ?mid)(to_string ReqID1 \<mapsto> (?t2, ?c2)),
                     NextRequestCookie := ?c2 + 1,
                     NextTask := Suc ?t2,
                     Trace := Trace ?mid @
                       [Acquire RequestCancelersMutex, Release RequestCancelersMutex]\<rparr>"
    using assms(2,3) by (simp_all add: cancelableRequestContext_result mid)
  have e2: "RequestCancelers s2 (to_string ReqID1) = Some (?t2, ?c2)"
    by (simp add: s2)
  have cancel: "onCancel to_string (JObject Obj) s2 =
      s2\<lparr>Trace := Trace s2 @
         [Acquire RequestCancelersMutex, Fire ?t2, Release RequestCancelersMutex]\<rparr>"
    if "map_of Obj ''id'' = Some ReqID3" and "to_string ReqID3 = to_string ReqID1"
    using that e2 by (simp add: onCancel_def effects)
  have x2: "requestContext_exit Ctx2 s2 =
      s2\<lparr>RequestCancelers := (RequestCancelers s2)(to_string ReqID1 := None),
         Trace := Trace s2 @ [Acquire RequestCancelersMutex, Release RequestCancelersMutex]\<rparr>"
    using e2 by (simp add: c2 requestContext_exit_def effects)
  from c1 c2 e1 e2 cancel x2
  show ?thesis by blast
qed

text \<open>
  The scope-exit action of the first call's context compares the cookie it has captured with
  the one in the map. The cookies are the values of a counter of 32 bits: they differ, and the
  action leaves the second call's entry alone, unless the number of registrations from the
  first to the second (the calls registered in between, and one) is a multiple of 4294967296;
  then they are the same and the action erases the entry of the second call.
\<close>

lemma request_id_reuse_cleanup:
  assumes "cancelableRequestContext to_string ReqID1 s = (Ctx1, s1)"
    and "cancelableRequestContext to_string ReqID2 (cancellation_run to_string evs s1) = (Ctx2, s2)"
    and "to_string ReqID2 = to_string ReqID1"
  shows "(snd Ctx2 = snd Ctx1) = (4294967296 dvd Suc (begins evs)) \<and>
    requestContext_exit Ctx1 s2 =
      (if 4294967296 dvd Suc (begins evs)
       then s2\<lparr>RequestCancelers := (RequestCancelers s2)(to_string ReqID1 := None),
              Trace := Trace s2 @ [Acquire RequestCancelersMutex, Release RequestCancelersMutex]\<rparr>
       else s2\<lparr>Trace := Trace s2 @ [Acquire RequestCancelersMutex, Release RequestCancelersMutex]\<rparr>)"
proof -
  let ?c = "NextRequestCookie s"
  let ?c2 = "?c + 1 + of_nat (begins evs)"
  note ov = request_id_reuse_overwrite [OF assms, of "[]" ReqID1]
  from ov have c1: "Ctx1 = (to_string ReqID1, ?c)" and c2: "Ctx2 = (to_string ReqID1, ?c2)"
    by blast+
  from ov have e2: "RequestCancelers s2 (to_string ReqID1) =
      Some (Suc (NextTask s) + begins evs, ?c2)"
    by blast
  have same: "(?c2 = ?c) = (4294967296 dvd Suc (begins evs))"
    by (rule cookie_wrapped)
  have d: "(snd Ctx2 = snd Ctx1) = (4294967296 dvd Suc (begins evs))"
    using same by (simp add: c1 c2)
  have x1: "requestContext_exit Ctx1 s2 =
      (if ?c2 = ?c
       then s2\<lparr>RequestCancelers := (RequestCancelers s2)(to_string ReqID1 := None),
              Trace := Trace s2 @ [Acquire RequestCancelersMutex, Release RequestCancelersMutex]\<rparr>
       else s2\<lparr>Trace := Trace s2 @ [Acquire RequestCancelersMutex, Release RequestCancelersMutex]\<rparr>)"
    using e2 by (simp add: c1 requestContext_exit_def effects)
  from d x1 same show ?thesis
    by simp
qed

lemma begins_finished_calls: "begins (finished_calls to_string ReqID Cookie n) = n"
  by (induction n arbitrary: Cookie) simp_all

text \<open>
  One call with the ID 6 comes and goes between two calls with the ID 5: a cancellation of 5
  fires the canceler of the second call's task, task 2, and the scope-exit action of the first
  call's context leaves the entry of the second call in the map.
\<close>

lemma request_id_reuse_example:
  "fired (Trace (onCancel example_key (JObject [(''id'', JInteger 5)])
      (snd (reused_id_registration 1)))) = [2] \<and>
   RequestCancelers (requestContext_exit (''5'', 0) (snd (reused_id_registration 1))) ''5'' =
     Some (2, 2)"
proof -
  let ?ts = "example_key"
  let ?evs = "finished_calls ?ts (JInteger 6) 1 1"
  let ?r1 = "cancelableRequestContext ?ts (JInteger 5) (fresh_endpoint False)"
  let ?r2 = "reused_id_registration 1"
  have a: "?r1 = (fst ?r1, snd ?r1)"
    by simp
  have b: "cancelableRequestContext ?ts (JInteger 5) (cancellation_run ?ts ?evs (snd ?r1)) =
      (fst ?r2, snd ?r2)"
    by (simp add: reused_id_registration_def)
  have n: "begins ?evs = 1"
    by (rule begins_finished_calls)
  have k: "\<not> 4294967296 dvd Suc (begins ?evs)"
  proof
    assume "4294967296 dvd Suc (begins ?evs)"
    then have "4294967296 \<le> Suc (begins ?evs)"
      by (rule dvd_imp_le) simp
    then show False
      by (simp add: n)
  qed
  have c: "map_of [(''id'', JInteger 5)] ''id'' = Some (JInteger 5)"
    by simp
  have t: "fired (Trace (snd ?r2)) = []"
    by (simp add: reused_id_registration_def cancelableRequestContext_result
        requestContext_exit_def effects fresh_endpoint_fields fired_append example_key_def)
  have f: "fst ?r1 = (''5'', 0)"
    by (simp add: cancelableRequestContext_result fresh_endpoint_fields example_key_def)
  note ov = request_id_reuse_overwrite [OF a b refl, of "[(''id'', JInteger 5)]" "JInteger 5"]
  note cl = request_id_reuse_cleanup [OF a b refl]
  from ov c have "onCancel ?ts (JObject [(''id'', JInteger 5)]) (snd ?r2) =
      (snd ?r2)\<lparr>Trace := Trace (snd ?r2) @
         [Acquire RequestCancelersMutex,
          Fire (Suc (NextTask (fresh_endpoint False)) + begins ?evs),
          Release RequestCancelersMutex]\<rparr>"
    by blast
  then have one: "fired (Trace (onCancel ?ts (JObject [(''id'', JInteger 5)]) (snd ?r2))) = [2]"
    using t by (simp add: fired_append fresh_endpoint_fields n)
  from cl k have "requestContext_exit (fst ?r1) (snd ?r2) =
      (snd ?r2)\<lparr>Trace := Trace (snd ?r2) @
         [Acquire RequestCancelersMutex, Release RequestCancelersMutex]\<rparr>"
    by simp
  moreover from ov have "RequestCancelers (snd ?r2) (?ts (JInteger 5)) =
      Some (Suc (NextTask (fresh_endpoint False)) + begins ?evs,
            NextRequestCookie (fresh_endpoint False) + 1 + of_nat (begins ?evs))"
    by blast
  ultimately have two: "RequestCancelers (requestContext_exit (''5'', 0) (snd ?r2)) ''5'' =
      Some (2, 2)"
    by (simp add: f fresh_endpoint_fields n example_key_def)
  from one two show ?thesis by blast
qed

text \<open>
  C4. The claim fails on the code when the cookie counter has gone round. A call with the
  ID 5 registers at a new endpoint and stays in flight; 4294967295 calls with the ID 6 come
  and go; a second call with the ID 5 registers. \<^verbatim>\<open>NextRequestCookie\<close> is an
  \<^verbatim>\<open>unsigned\<close> of 32 bits, so the context of the second call holds the cookie of the
  first, 0. The second registration has replaced the entry of the key: the map holds the task
  of the second call, task 4294967296, with the cookie 0. When the context of the first call
  exits, its scope-exit action finds its own cookie in the map and erases the entry, which is
  the entry of the second call; a "$/cancelRequest" for the ID 5 after that fires no canceler.
  The comments of the source say that this does not happen: the cookie is there "to
  disambiguate reused IDs", and in \<^verbatim>\<open>cancelableRequestContext\<close> "the last wins"
  and "the cookie lets us check that it hasn't been overwritten".
\<close>

theorem cookie_wraps_erases_later_entry:
  "fst (cancelableRequestContext example_key (JInteger 5) (fresh_endpoint False)) = (''5'', 0) \<and>
   fst (reused_id_registration 4294967295) = (''5'', 0) \<and>
   RequestCancelers (snd (reused_id_registration 4294967295)) ''5'' = Some (4294967296, 0) \<and>
   RequestCancelers
     (requestContext_exit (''5'', 0) (snd (reused_id_registration 4294967295))) ''5'' = None \<and>
   onCancel example_key (JObject [(''id'', JInteger 5)])
       (requestContext_exit (''5'', 0) (snd (reused_id_registration 4294967295))) =
     (requestContext_exit (''5'', 0) (snd (reused_id_registration 4294967295)))
       \<lparr>Trace := Trace (requestContext_exit (''5'', 0) (snd (reused_id_registration 4294967295))) @
          [Acquire RequestCancelersMutex, Release RequestCancelersMutex]\<rparr>"
proof -
  let ?ts = "example_key"
  let ?evs = "finished_calls ?ts (JInteger 6) 1 4294967295"
  let ?s1 = "snd (cancelableRequestContext ?ts (JInteger 5) (fresh_endpoint False))"
  let ?mid = "cancellation_run ?ts ?evs ?s1"
  let ?r2 = "reused_id_registration 4294967295"
  let ?x = "requestContext_exit (''5'', 0) (snd ?r2)"
  have r2: "?r2 = cancelableRequestContext ?ts (JInteger 5) ?mid"
    by (simp only: reused_id_registration_def)
  have n: "begins ?evs = 4294967295"
    by (rule begins_finished_calls)
  have mid: "NextRequestCookie ?mid = 0" "NextTask ?mid = 4294967296"
    using cancellation_run_counters [of ?ts ?evs ?s1]
    by (simp_all add: n cancelableRequestContext_counters fresh_endpoint_fields)
  have a: "fst (cancelableRequestContext ?ts (JInteger 5) (fresh_endpoint False)) = (''5'', 0)"
    by (simp add: cancelableRequestContext_result fresh_endpoint_fields example_key_def)
  have "fst ?r2 = (?ts (JInteger 5), NextRequestCookie ?mid)"
    unfolding r2 by (rule cancelableRequestContext_context)
  then have a2: "fst ?r2 = (''5'', 0)"
    by (simp add: mid example_key_def)
  have "RequestCancelers (snd ?r2) (?ts (JInteger 5)) =
      Some (NextTask ?mid, NextRequestCookie ?mid)"
    unfolding r2 by (rule cancelableRequestContext_entry)
  then have b: "RequestCancelers (snd ?r2) ''5'' = Some (4294967296, 0)"
    by (simp add: mid example_key_def)
  have c: "RequestCancelers ?x ''5'' = None"
    by (simp add: requestContext_exit_map b)
  have d: "onCancel ?ts (JObject [(''id'', JInteger 5)]) ?x =
      ?x\<lparr>Trace := Trace ?x @ [Acquire RequestCancelersMutex, Release RequestCancelersMutex]\<rparr>"
    using c by (simp add: onCancel_def effects example_key_def Let_def)
  from a a2 b c d show ?thesis by blast
qed

subsection \<open>The outbound call registry\<close>

lemma NextCallID_range:
  "- 2147483648 \<le> sint (c :: 32 word)" "sint (c :: 32 word) \<le> 2147483647"
  using sint_ge [of c] sint_lt [of c] by simp_all

lemma NextCallID_successor:
  "sint (c + 1 :: 32 word) =
     (if sint c = 2147483647 then - 2147483648 else sint c + 1)"
proof (cases "sint c = 2147483647")
  case True
  then have "word_of_int (sint c) = (2147483647 :: 32 word)"
    by simp
  then have "c = 2147483647"
    by simp
  then show ?thesis
    by simp
next
  case False
  have r: "- 2147483648 \<le> sint c" "sint c \<le> 2147483647"
    by (rule NextCallID_range)+
  have "sint (c + 1) = signed_take_bit 31 (sint c + 1)"
    by (simp add: sint_word_ariths)
  also have "\<dots> = sint c + 1"
    using r False by (simp add: signed_take_bit_int_eq_self)
  finally show ?thesis
    using False by simp
qed

lemma bindReply_below:
  assumes "int (length (ReplyCallbacks s)) < MaxReplayCallbacks"
  shows "bindReply Reply s =
     (JInteger (sint (NextCallID s)),
      s\<lparr>NextCallID := NextCallID s + 1,
        ReplyCallbacks := ReplyCallbacks s @ [(sint (NextCallID s), Reply)],
        Trace := Trace s @ [Acquire CallMutex, Release CallMutex]\<rparr>)"
  using assms by (simp add: bindReply_def effects Let_def)

lemma bindReply_full:
  assumes "int (length (ReplyCallbacks s)) \<ge> MaxReplayCallbacks"
  shows "bindReply Reply s =
     (JInteger (sint (NextCallID s)),
      s\<lparr>NextCallID := NextCallID s + 1,
        ReplyCallbacks := tl (ReplyCallbacks s) @ [(sint (NextCallID s), Reply)],
        Trace := Trace s @
          [Acquire CallMutex,
           ELog ''more than {0} outstanding LSP calls, forgetting about {1}''
             [AInt MaxReplayCallbacks, AInt (fst (hd (ReplyCallbacks s)))],
           Release CallMutex,
           Invoke (snd (hd (ReplyCallbacks s)))
             (Inl (StringError ''failed to receive a client reply for request ({0})''
                     [AInt (fst (hd (ReplyCallbacks s)))]))]\<rparr>)"
proof -
  from assms obtain front rest where "ReplyCallbacks s = front # rest"
    by (cases "ReplyCallbacks s") (simp_all add: MaxReplayCallbacks_def)
  with assms show ?thesis
    by (simp add: bindReply_def effects Let_def)
qed

lemma bindReply_bound:
  assumes "int (length (ReplyCallbacks s)) \<le> MaxReplayCallbacks"
  shows "int (length (ReplyCallbacks (snd (bindReply Reply s)))) \<le> MaxReplayCallbacks"
proof (cases "int (length (ReplyCallbacks s)) < MaxReplayCallbacks")
  case True
  then show ?thesis by (simp add: bindReply_below)
next
  case False
  with assms have "int (length (ReplyCallbacks s)) \<ge> MaxReplayCallbacks" by simp
  with assms show ?thesis by (simp add: bindReply_full MaxReplayCallbacks_def)
qed

lemma findReplyCallback_length:
  "findReplyCallback IntID es = (h, es') \<Longrightarrow> length es' \<le> length es"
  by (induction es arbitrary: h es') (auto split: prod.splits if_splits)

lemma onReply_ReplyCallbacks:
  "length (ReplyCallbacks (snd (onReply ReqID Result s))) \<le> length (ReplyCallbacks s)"
  by (auto simp add: onReply_def effects Let_def dest: findReplyCallback_length
      split: option.split prod.split sum.split)

lemma registry_run_bound:
  "int (length (ReplyCallbacks s)) \<le> MaxReplayCallbacks \<Longrightarrow>
   int (length (ReplyCallbacks (registry_run ops s))) \<le> MaxReplayCallbacks"
proof (induction ops s rule: registry_run.induct)
  case (1 s)
  then show ?case by simp
next
  case (2 cb ops s)
  then show ?case by (simp add: bindReply_bound)
next
  case (3 ReqID Result ops s)
  have "int (length (ReplyCallbacks (snd (onReply ReqID Result s)))) \<le> MaxReplayCallbacks"
    using onReply_ReplyCallbacks [of ReqID Result s] "3.prems" by linarith
  then show ?case using "3.IH" by simp
qed

lemma callRaw_writes_call:
  "frames (Trace (callRaw Meth Params CB s)) =
     frames (Trace s) @ [Transp_call Meth Params (JInteger (sint (NextCallID s)))]"
  by (simp add: callRaw_def bindReply_def effects Let_def frames_append
      split: list.split)

lemma findReplyCallback_absent:
  "IntID \<notin> fst ` set es \<Longrightarrow> findReplyCallback IntID es = (None, es)"
  by (induction es) auto

lemma findReplyCallback_first:
  "IntID \<notin> fst ` set pre \<Longrightarrow>
   findReplyCallback IntID (pre @ (IntID, cb) # post) = (Some cb, pre @ post)"
  by (induction pre) auto


text \<open>
  C5. \<^verbatim>\<open>bindReply\<close> returns the old value of \<^verbatim>\<open>NextCallID\<close> as the ID,
  increments the counter and appends the pair of the ID and the callback. The counter has 32
  bits: the ID lies between -2147483648 and 2147483647, and the ID after 2147483647 is
  -2147483648. With fewer than
  \<^verbatim>\<open>MaxReplayCallbacks\<close> = 100 entries before, that is all. With 100 entries (or more)
  before, it also logs, removes the entry at the head and, after \<^verbatim>\<open>CallMutex\<close> has
  been released, runs the callback of that entry once, on the string error "failed to receive
  a client reply for request ({0})" formatted with the ID of that entry. A registry of at most
  100 entries has at most 100 entries afterwards, and so has every registry reached from a
  new endpoint by registrations and replies.
\<close>

theorem bindReply_evicts_oldest:
  "MaxReplayCallbacks = 100 \<and>
   - 2147483648 \<le> sint (NextCallID s) \<and> sint (NextCallID s) \<le> 2147483647 \<and>
   sint (NextCallID s + 1) =
     (if sint (NextCallID s) = 2147483647 then - 2147483648 else sint (NextCallID s) + 1) \<and>
   (int (length (ReplyCallbacks s)) < MaxReplayCallbacks \<longrightarrow>
      bindReply Reply s =
        (JInteger (sint (NextCallID s)),
         s\<lparr>NextCallID := NextCallID s + 1,
           ReplyCallbacks := ReplyCallbacks s @ [(sint (NextCallID s), Reply)],
           Trace := Trace s @ [Acquire CallMutex, Release CallMutex]\<rparr>)) \<and>
   (int (length (ReplyCallbacks s)) \<ge> MaxReplayCallbacks \<longrightarrow>
      bindReply Reply s =
        (JInteger (sint (NextCallID s)),
         s\<lparr>NextCallID := NextCallID s + 1,
           ReplyCallbacks := tl (ReplyCallbacks s) @ [(sint (NextCallID s), Reply)],
           Trace := Trace s @
             [Acquire CallMutex,
              ELog ''more than {0} outstanding LSP calls, forgetting about {1}''
                [AInt MaxReplayCallbacks, AInt (fst (hd (ReplyCallbacks s)))],
              Release CallMutex,
              Invoke (snd (hd (ReplyCallbacks s)))
                (Inl (StringError ''failed to receive a client reply for request ({0})''
                        [AInt (fst (hd (ReplyCallbacks s)))]))]\<rparr>)) \<and>
   (int (length (ReplyCallbacks s)) \<le> MaxReplayCallbacks \<longrightarrow>
      int (length (ReplyCallbacks (snd (bindReply Reply s)))) \<le> MaxReplayCallbacks) \<and>
   int (length (ReplyCallbacks
                  (registry_run ops (ClangdLSPServer_new Assertions Dir UseDir Enc Opts))))
     \<le> MaxReplayCallbacks"
proof (intro conjI impI)
  show "MaxReplayCallbacks = 100"
    by (simp add: MaxReplayCallbacks_def)
  show "- 2147483648 \<le> sint (NextCallID s)" and "sint (NextCallID s) \<le> 2147483647"
    by (rule NextCallID_range)+
  show "sint (NextCallID s + 1) =
     (if sint (NextCallID s) = 2147483647 then - 2147483648 else sint (NextCallID s) + 1)"
    by (rule NextCallID_successor)
  show "int (length (ReplyCallbacks
                  (registry_run ops (ClangdLSPServer_new Assertions Dir UseDir Enc Opts))))
     \<le> MaxReplayCallbacks"
    by (rule registry_run_bound) (simp add: ClangdLSPServer_new_def MaxReplayCallbacks_def)
qed (simp_all add: bindReply_below bindReply_full bindReply_bound)

theorem bindReply_evicts_oldest_witness:
  "int (length (ReplyCallbacks
      ((fresh_endpoint False)
         \<lparr>NextCallID := 100,
          ReplyCallbacks := (0, 0) # map (\<lambda>i. (int i, i)) [1..<100]\<rparr>))) = MaxReplayCallbacks \<and>
   bindReply 100
      ((fresh_endpoint False)
         \<lparr>NextCallID := 100,
          ReplyCallbacks := (0, 0) # map (\<lambda>i. (int i, i)) [1..<100]\<rparr>) =
     (JInteger 100,
      (fresh_endpoint False)
         \<lparr>NextCallID := 101,
          ReplyCallbacks := map (\<lambda>i. (int i, i)) [1..<100] @ [(100, 100)],
          Trace :=
            [Acquire CallMutex,
             ELog ''more than {0} outstanding LSP calls, forgetting about {1}''
               [AInt 100, AInt 0],
             Release CallMutex,
             Invoke 0
               (Inl (StringError ''failed to receive a client reply for request ({0})''
                       [AInt 0]))]\<rparr>) \<and>
   int (length (ReplyCallbacks ((fresh_endpoint False)\<lparr>NextCallID := 2147483647\<rparr>)))
     < MaxReplayCallbacks \<and>
   bindReply 7 ((fresh_endpoint False)\<lparr>NextCallID := 2147483647\<rparr>) =
     (JInteger 2147483647,
      (fresh_endpoint False)
         \<lparr>NextCallID := - 2147483648,
          ReplyCallbacks := [(2147483647, 7)],
          Trace := [Acquire CallMutex, Release CallMutex]\<rparr>) \<and>
   sint (- 2147483648 :: 32 word) = - 2147483648"
proof -
  let ?s = "(fresh_endpoint False)
         \<lparr>NextCallID := 100,
          ReplyCallbacks := (0, 0) # map (\<lambda>i. (int i, i)) [1..<100]\<rparr>"
  let ?t = "(fresh_endpoint False)\<lparr>NextCallID := 2147483647\<rparr>"
  have full: "int (length (ReplyCallbacks ?s)) = MaxReplayCallbacks"
    by (simp add: MaxReplayCallbacks_def)
  then have "int (length (ReplyCallbacks ?s)) \<ge> MaxReplayCallbacks"
    by simp
  with bindReply_evicts_oldest [of ?s 100]
  have "bindReply 100 ?s =
        (JInteger (sint (NextCallID ?s)),
         ?s\<lparr>NextCallID := NextCallID ?s + 1,
           ReplyCallbacks := tl (ReplyCallbacks ?s) @ [(sint (NextCallID ?s), 100)],
           Trace := Trace ?s @
             [Acquire CallMutex,
              ELog ''more than {0} outstanding LSP calls, forgetting about {1}''
                [AInt MaxReplayCallbacks, AInt (fst (hd (ReplyCallbacks ?s)))],
              Release CallMutex,
              Invoke (snd (hd (ReplyCallbacks ?s)))
                (Inl (StringError ''failed to receive a client reply for request ({0})''
                        [AInt (fst (hd (ReplyCallbacks ?s)))]))]\<rparr>)"
    by blast
  then have one: "bindReply 100 ?s =
     (JInteger 100,
      (fresh_endpoint False)
         \<lparr>NextCallID := 101,
          ReplyCallbacks := map (\<lambda>i. (int i, i)) [1..<100] @ [(100, 100)],
          Trace :=
            [Acquire CallMutex,
             ELog ''more than {0} outstanding LSP calls, forgetting about {1}''
               [AInt 100, AInt 0],
             Release CallMutex,
             Invoke 0
               (Inl (StringError ''failed to receive a client reply for request ({0})''
                       [AInt 0]))]\<rparr>)"
    by (simp add: fresh_endpoint_fields MaxReplayCallbacks_def)
  have below: "int (length (ReplyCallbacks ?t)) < MaxReplayCallbacks"
    by (simp add: fresh_endpoint_fields MaxReplayCallbacks_def)
  with bindReply_evicts_oldest [of ?t 7]
  have "bindReply 7 ?t =
        (JInteger (sint (NextCallID ?t)),
         ?t\<lparr>NextCallID := NextCallID ?t + 1,
           ReplyCallbacks := ReplyCallbacks ?t @ [(sint (NextCallID ?t), 7)],
           Trace := Trace ?t @ [Acquire CallMutex, Release CallMutex]\<rparr>)"
    by blast
  then have two: "bindReply 7 ?t =
     (JInteger 2147483647,
      (fresh_endpoint False)
         \<lparr>NextCallID := - 2147483648,
          ReplyCallbacks := [(2147483647, 7)],
          Trace := [Acquire CallMutex, Release CallMutex]\<rparr>)"
    by (simp add: fresh_endpoint_fields)
  have three: "sint (- 2147483648 :: 32 word) = - 2147483648"
    by simp
  from full one below two three show ?thesis
    by blast
qed

text \<open>
  C6. A reply whose ID is not an integer, or is an integer that no entry of the registry
  has, is logged twice (the arrival, then "there was no such call") and nothing else happens:
  no callback runs and the registry is as before. Otherwise the first entry with that ID is
  removed, the others stay in their order, and the callback of the removed entry is run once,
  on the result or error of the reply.
\<close>

theorem onReply_claims_first_match:
  "(getAsInteger ReqID = None \<longrightarrow>
      onReply ReqID Result s =
        (True,
         s\<lparr>Trace := Trace s @
            [case Result of
               Inr v \<Rightarrow> Log ''<-- reply({0})'' [AJson ReqID]
             | Inl Err \<Rightarrow> Log ''<-- reply({0}) error: {1}'' [AJson ReqID, AErr Err],
             ELog ''received a reply with ID {0}, but there was no such call''
               [AJson ReqID]]\<rparr>)) \<and>
   (getAsInteger ReqID = Some IntID \<and> IntID \<notin> fst ` set (ReplyCallbacks s) \<longrightarrow>
      onReply ReqID Result s =
        (True,
         s\<lparr>Trace := Trace s @
            [Acquire CallMutex, Release CallMutex,
             case Result of
               Inr v \<Rightarrow> Log ''<-- reply({0})'' [AJson ReqID]
             | Inl Err \<Rightarrow> Log ''<-- reply({0}) error: {1}'' [AJson ReqID, AErr Err],
             ELog ''received a reply with ID {0}, but there was no such call''
               [AJson ReqID]]\<rparr>)) \<and>
   (getAsInteger ReqID = Some IntID \<and> ReplyCallbacks s = pre @ (IntID, cb) # post \<and>
    IntID \<notin> fst ` set pre \<longrightarrow>
      onReply ReqID Result s =
        (True,
         s\<lparr>ReplyCallbacks := pre @ post,
           Trace := Trace s @
            [Acquire CallMutex, Release CallMutex,
             case Result of
               Inr v \<Rightarrow> Log ''<-- reply({0})'' [AJson ReqID]
             | Inl Err \<Rightarrow> Log ''<-- reply({0}) error: {1}'' [AJson ReqID, AErr Err],
             Invoke cb Result]\<rparr>))"
  by (auto simp add: onReply_def effects Let_def findReplyCallback_absent
      findReplyCallback_first split: sum.split)

theorem onReply_claims_first_match_witness:
  "onReply (JInteger 1) (Inr JNull)
      ((fresh_endpoint False)\<lparr>ReplyCallbacks := [(0, 10), (1, 11), (1, 12)]\<rparr>) =
     (True,
      (fresh_endpoint False)
        \<lparr>ReplyCallbacks := [(0, 10), (1, 12)],
         Trace := [Acquire CallMutex, Release CallMutex,
                   Log ''<-- reply({0})'' [AJson (JInteger 1)], Invoke 11 (Inr JNull)]\<rparr>) \<and>
   onReply (JInteger 2) (Inr JNull)
      ((fresh_endpoint False)\<lparr>ReplyCallbacks := [(0, 10), (1, 11), (1, 12)]\<rparr>) =
     (True,
      (fresh_endpoint False)
        \<lparr>ReplyCallbacks := [(0, 10), (1, 11), (1, 12)],
         Trace := [Acquire CallMutex, Release CallMutex,
                   Log ''<-- reply({0})'' [AJson (JInteger 2)],
                   ELog ''received a reply with ID {0}, but there was no such call''
                     [AJson (JInteger 2)]]\<rparr>) \<and>
   onReply (JString ''1'') (Inr JNull)
      ((fresh_endpoint False)\<lparr>ReplyCallbacks := [(0, 10), (1, 11), (1, 12)]\<rparr>) =
     (True,
      (fresh_endpoint False)
        \<lparr>ReplyCallbacks := [(0, 10), (1, 11), (1, 12)],
         Trace := [Log ''<-- reply({0})'' [AJson (JString ''1'')],
                   ELog ''received a reply with ID {0}, but there was no such call''
                     [AJson (JString ''1'')]]\<rparr>)"
  using onReply_claims_first_match
    [of "JInteger 1" "Inr JNull"
        "(fresh_endpoint False)\<lparr>ReplyCallbacks := [(0, 10), (1, 11), (1, 12)]\<rparr>"
        1 "[(0, 10)]" 11 "[(1, 12)]"]
    onReply_claims_first_match
    [of "JInteger 2" "Inr JNull"
        "(fresh_endpoint False)\<lparr>ReplyCallbacks := [(0, 10), (1, 11), (1, 12)]\<rparr>"
        2 "[]" 0 "[]"]
    onReply_claims_first_match
    [of "JString ''1''" "Inr JNull"
        "(fresh_endpoint False)\<lparr>ReplyCallbacks := [(0, 10), (1, 11), (1, 12)]\<rparr>"
        0 "[]" 0 "[]"]
  by (simp add: fresh_endpoint_fields)

subsection \<open>Notifications\<close>

text \<open>
  C7. \<^verbatim>\<open>onNotify\<close> logs the arrival and then decides in this order. The method "exit"
  makes it return false, which stops the transport loop. Any other method while the server has
  not been constructed is logged as arriving before initialization and dropped. With the
  server constructed, "$/cancelRequest" goes to \<^verbatim>\<open>onCancel\<close>; any other method is
  looked up in the table \<open>Notifications\<close>: the handler found there is run on the parameters,
  and a method not found is logged as unhandled and dropped.
\<close>

theorem onNotify_decisions:
  "(Meth = ''exit'' \<longrightarrow>
      onNotify to_string Notifications Meth Params s =
        (False, s\<lparr>Trace := Trace s @ [Log ''<-- {0}'' [AStr Meth]]\<rparr>)) \<and>
   (Meth \<noteq> ''exit'' \<and> Server s = None \<longrightarrow>
      onNotify to_string Notifications Meth Params s =
        (True,
         s\<lparr>Trace := Trace s @
            [Log ''<-- {0}'' [AStr Meth],
             ELog ''Notification {0} before initialization'' [AStr Meth]]\<rparr>)) \<and>
   (Meth = ''$/cancelRequest'' \<and> Server s \<noteq> None \<longrightarrow>
      onNotify to_string Notifications Meth Params s =
        (True, onCancel to_string Params (s\<lparr>Trace := Trace s @ [Log ''<-- {0}'' [AStr Meth]]\<rparr>))) \<and>
   (Meth \<noteq> ''exit'' \<and> Meth \<noteq> ''$/cancelRequest'' \<and> Server s \<noteq> None \<and>
    Notifications Meth = None \<longrightarrow>
      onNotify to_string Notifications Meth Params s =
        (True,
         s\<lparr>Trace := Trace s @
            [Log ''<-- {0}'' [AStr Meth], Log ''unhandled notification {0}'' [AStr Meth]]\<rparr>)) \<and>
   (Meth \<noteq> ''exit'' \<and> Meth \<noteq> ''$/cancelRequest'' \<and> Server s \<noteq> None \<and>
    Notifications Meth = Some Handler \<longrightarrow>
      onNotify to_string Notifications Meth Params s =
        (True, Handler Params (s\<lparr>Trace := Trace s @ [Log ''<-- {0}'' [AStr Meth]]\<rparr>)))"
  by (auto simp add: onNotify_def effects Let_def)

theorem onNotify_decisions_witness:
  "onNotify (\<lambda>j. ''1'') Map.empty ''exit'' JNull (fresh_endpoint False) =
     (False, (fresh_endpoint False)\<lparr>Trace := [Log ''<-- {0}'' [AStr ''exit'']]\<rparr>) \<and>
   onNotify (\<lambda>j. ''1'') [''textDocument/didOpen'' \<mapsto> notify ''seen'']
       ''textDocument/didOpen'' JNull (fresh_endpoint False) =
     (True,
      (fresh_endpoint False)
        \<lparr>Trace := [Log ''<-- {0}'' [AStr ''textDocument/didOpen''],
                   ELog ''Notification {0} before initialization''
                     [AStr ''textDocument/didOpen'']]\<rparr>) \<and>
   onNotify (\<lambda>j. ''1'') [''textDocument/didOpen'' \<mapsto> notify ''seen'']
       ''$/cancelRequest'' JNull
       ((fresh_endpoint False)\<lparr>Server := Some (ClangdServerOpts (fresh_endpoint False))\<rparr>) =
     (True,
      (fresh_endpoint False)
        \<lparr>Server := Some (ClangdServerOpts (fresh_endpoint False)),
         Trace := [Log ''<-- {0}'' [AStr ''$/cancelRequest''],
                   ELog ''Bad cancellation request: {0}'' [AJson JNull]]\<rparr>) \<and>
   onNotify (\<lambda>j. ''1'') [''textDocument/didOpen'' \<mapsto> notify ''seen'']
       ''textDocument/didClose'' JNull
       ((fresh_endpoint False)\<lparr>Server := Some (ClangdServerOpts (fresh_endpoint False))\<rparr>) =
     (True,
      (fresh_endpoint False)
        \<lparr>Server := Some (ClangdServerOpts (fresh_endpoint False)),
         Trace := [Log ''<-- {0}'' [AStr ''textDocument/didClose''],
                   Log ''unhandled notification {0}'' [AStr ''textDocument/didClose'']]\<rparr>) \<and>
   onNotify (\<lambda>j. ''1'') [''textDocument/didOpen'' \<mapsto> notify ''seen'']
       ''textDocument/didOpen'' JNull
       ((fresh_endpoint False)\<lparr>Server := Some (ClangdServerOpts (fresh_endpoint False))\<rparr>) =
     (True,
      (fresh_endpoint False)
        \<lparr>Server := Some (ClangdServerOpts (fresh_endpoint False)),
         Trace := [Log ''<-- {0}'' [AStr ''textDocument/didOpen''],
                   Log ''--> {0}'' [AStr ''seen''],
                   Acquire TranspWriter, Write (Transp_notify ''seen'' JNull),
                   Release TranspWriter]\<rparr>)"
proof -
  let ?ts = "\<lambda>j::json. ''1''"
  let ?tab = "[''textDocument/didOpen'' \<mapsto> notify ''seen''] ::
    string \<Rightarrow> nat NotifyHandler option"
  let ?up = "(fresh_endpoint False)\<lparr>Server := Some (ClangdServerOpts (fresh_endpoint False))\<rparr>"
  have "onNotify ?ts Map.empty ''exit'' JNull (fresh_endpoint False) =
      (False, (fresh_endpoint False)\<lparr>Trace := [Log ''<-- {0}'' [AStr ''exit'']]\<rparr>)"
    using onNotify_decisions [of "''exit''" ?ts Map.empty JNull "fresh_endpoint False"]
    by (simp add: fresh_endpoint_fields)
  moreover have "onNotify ?ts ?tab ''textDocument/didOpen'' JNull (fresh_endpoint False) =
     (True,
      (fresh_endpoint False)
        \<lparr>Trace := [Log ''<-- {0}'' [AStr ''textDocument/didOpen''],
                   ELog ''Notification {0} before initialization''
                     [AStr ''textDocument/didOpen'']]\<rparr>)"
    using onNotify_decisions
      [of "''textDocument/didOpen''" ?ts ?tab JNull "fresh_endpoint False"]
    by (simp add: fresh_endpoint_fields)
  moreover have "onNotify ?ts ?tab ''$/cancelRequest'' JNull ?up =
     (True,
      (fresh_endpoint False)
        \<lparr>Server := Some (ClangdServerOpts (fresh_endpoint False)),
         Trace := [Log ''<-- {0}'' [AStr ''$/cancelRequest''],
                   ELog ''Bad cancellation request: {0}'' [AJson JNull]]\<rparr>)"
    using onNotify_decisions [of "''$/cancelRequest''" ?ts ?tab JNull ?up]
    by (simp add: fresh_endpoint_fields onCancel_def effects)
  moreover have "onNotify ?ts ?tab ''textDocument/didClose'' JNull ?up =
     (True,
      (fresh_endpoint False)
        \<lparr>Server := Some (ClangdServerOpts (fresh_endpoint False)),
         Trace := [Log ''<-- {0}'' [AStr ''textDocument/didClose''],
                   Log ''unhandled notification {0}'' [AStr ''textDocument/didClose'']]\<rparr>)"
    using onNotify_decisions [of "''textDocument/didClose''" ?ts ?tab JNull ?up]
    by (simp add: fresh_endpoint_fields)
  moreover have "onNotify ?ts ?tab ''textDocument/didOpen'' JNull ?up =
     (True,
      (fresh_endpoint False)
        \<lparr>Server := Some (ClangdServerOpts (fresh_endpoint False)),
         Trace := [Log ''<-- {0}'' [AStr ''textDocument/didOpen''],
                   Log ''--> {0}'' [AStr ''seen''],
                   Acquire TranspWriter, Write (Transp_notify ''seen'' JNull),
                   Release TranspWriter]\<rparr>)"
    using onNotify_decisions
      [of "''textDocument/didOpen''" ?ts ?tab JNull ?up "notify ''seen''"]
    by (simp add: fresh_endpoint_fields notify_def effects)
  ultimately show ?thesis by simp
qed

subsection \<open>Parameters that do not decode\<close>

text \<open>
  C8. When \<^verbatim>\<open>fromJSON\<close> fails on the raw parameters, the function that
  \<^verbatim>\<open>bind\<close> has stored for a call logs the failure and invokes the handle it was given
  (here one that has a server and has not replied, as \<^verbatim>\<open>onCall\<close> passes it) with
  \<open>InvalidRequest\<close>, "failed to decode request"; the function stored for a notification
  logs the failure and does nothing else. Neither result depends on the bound method of the
  server, which is not run. The same is seen from outside: \<^verbatim>\<open>onCall\<close> on a method
  bound in this way writes that one reply for the ID of the call, and \<^verbatim>\<open>onNotify\<close>
  logs and drops the notification.
\<close>

theorem bind_decode_failure:
  "(fromJSON RawParams = None \<and> ServerNonNull Reply \<and> \<not> Replied Reply \<longrightarrow>
      bind_call Meth fromJSON Handler RawParams Reply s =
        (Returns False,
         s\<lparr>Trace := Trace s @
            [ELog ''Failed to decode {0} request.'' [AStr Meth],
             Log ''--> reply:{0}({1}) {2:ms}, error: {3}''
               [AStr (Method Reply), AJson (ID Reply), ADuration,
                AErr (LSPError ''failed to decode request'' InvalidRequest)],
             Acquire TranspWriter,
             Write (Transp_reply (ID Reply)
                      (Inl (LSPError ''failed to decode request'' InvalidRequest))),
             Release TranspWriter]\<rparr>)) \<and>
   (fromJSON' RawParams = None \<longrightarrow>
      bind_notify Meth fromJSON' Handler' RawParams s =
        s\<lparr>Trace := Trace s @ [ELog ''Failed to decode {0} request.'' [AStr Meth]]\<rparr>) \<and>
   ((Server s \<noteq> None \<or> Meth = ''initialize'') \<and>
    Calls Meth = Some (bind_call Meth fromJSON Handler) \<and> fromJSON RawParams = None \<longrightarrow>
      onCall to_string Calls Meth RawParams ReqID s =
        (Returns True,
         s\<lparr>RequestCancelers := (RequestCancelers s)(to_string ReqID := None),
           NextRequestCookie := NextRequestCookie s + 1,
           NextTask := Suc (NextTask s),
           Trace := Trace s @
             [Acquire RequestCancelersMutex, Release RequestCancelersMutex,
              Log ''<-- {0}({1})'' [AStr Meth, AJson ReqID],
              ELog ''Failed to decode {0} request.'' [AStr Meth],
              Log ''--> reply:{0}({1}) {2:ms}, error: {3}''
                [AStr Meth, AJson ReqID, ADuration,
                 AErr (LSPError ''failed to decode request'' InvalidRequest)],
              Acquire TranspWriter,
              Write (Transp_reply ReqID
                       (Inl (LSPError ''failed to decode request'' InvalidRequest))),
              Release TranspWriter,
              Acquire RequestCancelersMutex, Release RequestCancelersMutex]\<rparr>)) \<and>
   (Server s \<noteq> None \<and> Meth \<noteq> ''exit'' \<and> Meth \<noteq> ''$/cancelRequest'' \<and>
    Notifications Meth = Some (bind_notify Meth fromJSON' Handler') \<and>
    fromJSON' RawParams = None \<longrightarrow>
      onNotify to_string Notifications Meth RawParams s =
        (True,
         s\<lparr>Trace := Trace s @
            [Log ''<-- {0}'' [AStr Meth],
             ELog ''Failed to decode {0} request.'' [AStr Meth]]\<rparr>))"
proof (intro conjI impI)
  assume "fromJSON RawParams = None \<and> ServerNonNull Reply \<and> \<not> Replied Reply"
  then show "bind_call Meth fromJSON Handler RawParams Reply s =
        (Returns False,
         s\<lparr>Trace := Trace s @
            [ELog ''Failed to decode {0} request.'' [AStr Meth],
             Log ''--> reply:{0}({1}) {2:ms}, error: {3}''
               [AStr (Method Reply), AJson (ID Reply), ADuration,
                AErr (LSPError ''failed to decode request'' InvalidRequest)],
             Acquire TranspWriter,
             Write (Transp_reply (ID Reply)
                      (Inl (LSPError ''failed to decode request'' InvalidRequest))),
             Release TranspWriter]\<rparr>)"
    by (simp add: bind_call_undecoded)
next
  assume "fromJSON' RawParams = None"
  then show "bind_notify Meth fromJSON' Handler' RawParams s =
        s\<lparr>Trace := Trace s @ [ELog ''Failed to decode {0} request.'' [AStr Meth]]\<rparr>"
    by (simp add: bind_notify_def effects)
next
  assume a: "(Server s \<noteq> None \<or> Meth = ''initialize'') \<and>
    Calls Meth = Some (bind_call Meth fromJSON Handler) \<and> fromJSON RawParams = None"
  show "onCall to_string Calls Meth RawParams ReqID s =
        (Returns True,
         s\<lparr>RequestCancelers := (RequestCancelers s)(to_string ReqID := None),
           NextRequestCookie := NextRequestCookie s + 1,
           NextTask := Suc (NextTask s),
           Trace := Trace s @
             [Acquire RequestCancelersMutex, Release RequestCancelersMutex,
              Log ''<-- {0}({1})'' [AStr Meth, AJson ReqID],
              ELog ''Failed to decode {0} request.'' [AStr Meth],
              Log ''--> reply:{0}({1}) {2:ms}, error: {3}''
                [AStr Meth, AJson ReqID, ADuration,
                 AErr (LSPError ''failed to decode request'' InvalidRequest)],
              Acquire TranspWriter,
              Write (Transp_reply ReqID
                       (Inl (LSPError ''failed to decode request'' InvalidRequest))),
              Release TranspWriter,
              Acquire RequestCancelersMutex, Release RequestCancelersMutex]\<rparr>)"
    by (rule onCall_undecoded) (use a in blast)+
next
  assume "Server s \<noteq> None \<and> Meth \<noteq> ''exit'' \<and> Meth \<noteq> ''$/cancelRequest'' \<and>
    Notifications Meth = Some (bind_notify Meth fromJSON' Handler') \<and>
    fromJSON' RawParams = None"
  then show "onNotify to_string Notifications Meth RawParams s =
        (True,
         s\<lparr>Trace := Trace s @
            [Log ''<-- {0}'' [AStr Meth],
             ELog ''Failed to decode {0} request.'' [AStr Meth]]\<rparr>)"
    by (auto simp add: onNotify_def bind_notify_def effects Let_def)
qed

theorem bind_decode_failure_witness:
  "bind_call ''textDocument/hover'' getAsObject (\<lambda>P R s. (Returns True, notify ''ran'' JNull s))
      (JInteger 3) (ReplyOnce_new (JInteger 4) ''textDocument/hover'') (fresh_endpoint False) =
     (Returns False,
      (fresh_endpoint False)
        \<lparr>Trace :=
           [ELog ''Failed to decode {0} request.'' [AStr ''textDocument/hover''],
            Log ''--> reply:{0}({1}) {2:ms}, error: {3}''
              [AStr ''textDocument/hover'', AJson (JInteger 4), ADuration,
               AErr (LSPError ''failed to decode request'' InvalidRequest)],
            Acquire TranspWriter,
            Write (Transp_reply (JInteger 4)
                     (Inl (LSPError ''failed to decode request'' InvalidRequest))),
            Release TranspWriter]\<rparr>) \<and>
   bind_notify ''textDocument/didOpen'' getAsObject (\<lambda>P. notify ''ran'' JNull)
      (JInteger 3) (fresh_endpoint False) =
     (fresh_endpoint False)
       \<lparr>Trace := [ELog ''Failed to decode {0} request.'' [AStr ''textDocument/didOpen'']]\<rparr>"
proof -
  have a: "getAsObject (JInteger 3) = None"
    and b: "ServerNonNull (ReplyOnce_new (JInteger 4) ''textDocument/hover'')"
    and c: "\<not> Replied (ReplyOnce_new (JInteger 4) ''textDocument/hover'')"
    and d: "ID (ReplyOnce_new (JInteger 4) ''textDocument/hover'') = JInteger 4"
    and e: "Method (ReplyOnce_new (JInteger 4) ''textDocument/hover'') = ''textDocument/hover''"
    by (simp_all add: ReplyOnce_new_def)
  have "bind_call ''textDocument/hover'' getAsObject
          (\<lambda>P R s. (Returns True, notify ''ran'' JNull s))
          (JInteger 3) (ReplyOnce_new (JInteger 4) ''textDocument/hover'') (fresh_endpoint False) =
     (Returns False,
      (fresh_endpoint False)
        \<lparr>Trace :=
           [ELog ''Failed to decode {0} request.'' [AStr ''textDocument/hover''],
            Log ''--> reply:{0}({1}) {2:ms}, error: {3}''
              [AStr ''textDocument/hover'', AJson (JInteger 4), ADuration,
               AErr (LSPError ''failed to decode request'' InvalidRequest)],
            Acquire TranspWriter,
            Write (Transp_reply (JInteger 4)
                     (Inl (LSPError ''failed to decode request'' InvalidRequest))),
            Release TranspWriter]\<rparr>)"
    using a b c d e
      bind_decode_failure
        [where fromJSON = getAsObject and RawParams = "JInteger 3"
           and Reply = "ReplyOnce_new (JInteger 4) ''textDocument/hover''"
           and Meth = "''textDocument/hover''"
           and Handler = "\<lambda>P R s. (Returns True, notify ''ran'' JNull s)"
           and s = "fresh_endpoint False" and fromJSON' = getAsObject
           and Handler' = "\<lambda>P. notify ''ran'' JNull"]
    by (simp add: fresh_endpoint_fields)
  moreover have "bind_notify ''textDocument/didOpen'' getAsObject (\<lambda>P. notify ''ran'' JNull)
      (JInteger 3) (fresh_endpoint False) =
     (fresh_endpoint False)
       \<lparr>Trace := [ELog ''Failed to decode {0} request.'' [AStr ''textDocument/didOpen'']]\<rparr>"
    using a
      bind_decode_failure
        [where fromJSON = getAsObject and RawParams = "JInteger 3"
           and Reply = "ReplyOnce_new (JInteger 4) ''textDocument/hover''"
           and Meth = "''textDocument/didOpen''"
           and Handler = "\<lambda>P R s. (Returns True, notify ''ran'' JNull s)"
           and s = "fresh_endpoint False" and fromJSON' = getAsObject
           and Handler' = "\<lambda>P. notify ''ran'' JNull"]
    by (simp add: fresh_endpoint_fields)
  ultimately show ?thesis by simp
qed

subsection \<open>A second initialize\<close>

lemma onInitialize_options_fields:
  "Server (onInitialize_options Params s) = Server s"
  "CDB (onInitialize_options Params s) = CDB s"
  "BaseCDB (onInitialize_options Params s) = BaseCDB s"
  "CompileCommandsDir (onInitialize_options Params s) = CompileCommandsDir s"
  "RequestCancelers (onInitialize_options Params s) = RequestCancelers s"
  "Trace (onInitialize_options Params s) = Trace s"
  by (simp_all add: onInitialize_options_def Let_def split: option.split)

lemma onInitialize_initialized:
  assumes "Server s \<noteq> None" and "ServerNonNull Reply" and "\<not> Replied Reply"
  shows "onInitialize Configure Params Reply s =
     (Returns False,
      (onInitialize_options Params s)
        \<lparr>Trace := Trace s @
           [Log ''--> reply:{0}({1}) {2:ms}, error: {3}''
              [AStr (Method Reply), AJson (ID Reply), ADuration,
               AErr (LSPError ''server already initialized'' InvalidRequest)],
            Acquire TranspWriter,
            Write (Transp_reply (ID Reply)
                     (Inl (LSPError ''server already initialized'' InvalidRequest))),
            Release TranspWriter]\<rparr>)"
proof -
  have "Server (onInitialize_options Params s) \<noteq> None"
    using assms(1) by (simp add: onInitialize_options_fields)
  then show ?thesis
    using assms(2,3)
    by (simp add: onInitialize_def reply_and_destroy_first onInitialize_options_fields Let_def)
qed

lemma onCall_initialize_again:
  assumes "Server s \<noteq> None"
    and "Calls ''initialize'' = Some (bind_call ''initialize'' fromJSON (onInitialize Configure))"
    and "fromJSON RawParams = Some P"
  shows "fst (onCall to_string Calls ''initialize'' RawParams ReqID s) = Returns True"
    and "Trace (snd (onCall to_string Calls ''initialize'' RawParams ReqID s)) =
      Trace s @
        [Acquire RequestCancelersMutex, Release RequestCancelersMutex,
         Log ''<-- {0}({1})'' [AStr ''initialize'', AJson ReqID],
         Log ''--> reply:{0}({1}) {2:ms}, error: {3}''
           [AStr ''initialize'', AJson ReqID, ADuration,
            AErr (LSPError ''server already initialized'' InvalidRequest)],
         Acquire TranspWriter,
         Write (Transp_reply ReqID (Inl (LSPError ''server already initialized'' InvalidRequest))),
         Release TranspWriter,
         Acquire RequestCancelersMutex, Release RequestCancelersMutex]"
    and "Server (snd (onCall to_string Calls ''initialize'' RawParams ReqID s)) = Server s"
    and "CDB (snd (onCall to_string Calls ''initialize'' RawParams ReqID s)) = CDB s"
    and "BaseCDB (snd (onCall to_string Calls ''initialize'' RawParams ReqID s)) = BaseCDB s"
proof -
  let ?s2 = "log ''<-- {0}({1})'' [AStr ''initialize'', AJson ReqID]
               (snd (cancelableRequestContext to_string ReqID s))"
  have new: "ServerNonNull (ReplyOnce_new ReqID ''initialize'')"
    "\<not> Replied (ReplyOnce_new ReqID ''initialize'')"
    "ID (ReplyOnce_new ReqID ''initialize'') = ReqID"
    "Method (ReplyOnce_new ReqID ''initialize'') = ''initialize''"
    by (simp_all add: ReplyOnce_new_def)
  have srv: "Server ?s2 \<noteq> None"
    using assms(1) by (simp add: registration effects Let_def)
  have run: "onCall to_string Calls ''initialize'' RawParams ReqID s =
      (Returns True,
       requestContext_exit (fst (cancelableRequestContext to_string ReqID s))
         ((onInitialize_options P ?s2)
            \<lparr>Trace := Trace ?s2 @
               [Log ''--> reply:{0}({1}) {2:ms}, error: {3}''
                  [AStr ''initialize'', AJson ReqID, ADuration,
                   AErr (LSPError ''server already initialized'' InvalidRequest)],
                Acquire TranspWriter,
                Write (Transp_reply ReqID
                         (Inl (LSPError ''server already initialized'' InvalidRequest))),
                Release TranspWriter]\<rparr>))"
  proof -
    have "Server s \<noteq> None \<or> ''initialize'' = ''initialize''"
      by simp
    then have "onCall to_string Calls ''initialize'' RawParams ReqID s =
       (case bind_call ''initialize'' fromJSON (onInitialize Configure) RawParams
               (ReplyOnce_new ReqID ''initialize'') ?s2 of
          (Returns Kept, s3) \<Rightarrow>
            (Returns True,
             if Kept then s3
             else requestContext_exit (fst (cancelableRequestContext to_string ReqID s)) s3)
        | (Fails f, s3) \<Rightarrow> (Fails f, s3))"
      using assms(2) by (rule onCall_dispatch)
    then show ?thesis
      by (simp only: bind_call_decoded [where fromJSON = fromJSON and RawParams = RawParams, OF assms(3)] onInitialize_initialized [OF srv new(1,2)]
          new prod.case outcome.case if_False)
  qed
  show "fst (onCall to_string Calls ''initialize'' RawParams ReqID s) = Returns True"
    by (simp add: run)
  show "Trace (snd (onCall to_string Calls ''initialize'' RawParams ReqID s)) =
      Trace s @
        [Acquire RequestCancelersMutex, Release RequestCancelersMutex,
         Log ''<-- {0}({1})'' [AStr ''initialize'', AJson ReqID],
         Log ''--> reply:{0}({1}) {2:ms}, error: {3}''
           [AStr ''initialize'', AJson ReqID, ADuration,
            AErr (LSPError ''server already initialized'' InvalidRequest)],
         Acquire TranspWriter,
         Write (Transp_reply ReqID (Inl (LSPError ''server already initialized'' InvalidRequest))),
         Release TranspWriter,
         Acquire RequestCancelersMutex, Release RequestCancelersMutex]"
    by (simp add: run requestContext_exit_def registration effects Let_def
        onInitialize_options_fields split: option.split)
  show "Server (snd (onCall to_string Calls ''initialize'' RawParams ReqID s)) = Server s"
    by (simp add: run requestContext_exit_def registration effects Let_def
        onInitialize_options_fields split: option.split)
  show "CDB (snd (onCall to_string Calls ''initialize'' RawParams ReqID s)) = CDB s"
    by (simp add: run requestContext_exit_def registration effects Let_def
        onInitialize_options_fields split: option.split)
  show "BaseCDB (snd (onCall to_string Calls ''initialize'' RawParams ReqID s)) = BaseCDB s"
    by (simp add: run requestContext_exit_def registration effects Let_def
        onInitialize_options_fields split: option.split)
qed

text \<open>
  C9. When \<^verbatim>\<open>onInitialize\<close> runs while the server is constructed, with a handle that has
  a server and has not replied, it replies \<open>InvalidRequest\<close>, "server already initialized",
  and returns: beyond the log line and the reply under \<^verbatim>\<open>TranspWriter\<close> nothing is added
  to the trace, so nothing is constructed, and \<open>Server\<close>, \<open>CDB\<close>, \<open>BaseCDB\<close> and
  \<open>CompileCommandsDir\<close> are as before. So it is for a call "initialize" that arrives at
  \<^verbatim>\<open>onCall\<close> while the server is constructed, the method being bound to
  \<^verbatim>\<open>onInitialize\<close> and the parameters decoding.
\<close>

theorem onInitialize_again:
  "(Server s \<noteq> None \<and> ServerNonNull Reply \<and> \<not> Replied Reply \<longrightarrow>
      fst (onInitialize Configure Params Reply s) = Returns False \<and>
      Trace (snd (onInitialize Configure Params Reply s)) =
        Trace s @
          [Log ''--> reply:{0}({1}) {2:ms}, error: {3}''
             [AStr (Method Reply), AJson (ID Reply), ADuration,
              AErr (LSPError ''server already initialized'' InvalidRequest)],
           Acquire TranspWriter,
           Write (Transp_reply (ID Reply)
                    (Inl (LSPError ''server already initialized'' InvalidRequest))),
           Release TranspWriter] \<and>
      Server (snd (onInitialize Configure Params Reply s)) = Server s \<and>
      CDB (snd (onInitialize Configure Params Reply s)) = CDB s \<and>
      BaseCDB (snd (onInitialize Configure Params Reply s)) = BaseCDB s \<and>
      CompileCommandsDir (snd (onInitialize Configure Params Reply s)) = CompileCommandsDir s) \<and>
   (Server s \<noteq> None \<and>
    Calls ''initialize'' = Some (bind_call ''initialize'' fromJSON (onInitialize Configure)) \<and>
    fromJSON RawParams = Some P \<longrightarrow>
      fst (onCall to_string Calls ''initialize'' RawParams ReqID s) = Returns True \<and>
      Trace (snd (onCall to_string Calls ''initialize'' RawParams ReqID s)) =
        Trace s @
          [Acquire RequestCancelersMutex, Release RequestCancelersMutex,
           Log ''<-- {0}({1})'' [AStr ''initialize'', AJson ReqID],
           Log ''--> reply:{0}({1}) {2:ms}, error: {3}''
             [AStr ''initialize'', AJson ReqID, ADuration,
              AErr (LSPError ''server already initialized'' InvalidRequest)],
           Acquire TranspWriter,
           Write (Transp_reply ReqID
                    (Inl (LSPError ''server already initialized'' InvalidRequest))),
           Release TranspWriter,
           Acquire RequestCancelersMutex, Release RequestCancelersMutex] \<and>
      Server (snd (onCall to_string Calls ''initialize'' RawParams ReqID s)) = Server s \<and>
      CDB (snd (onCall to_string Calls ''initialize'' RawParams ReqID s)) = CDB s \<and>
      BaseCDB (snd (onCall to_string Calls ''initialize'' RawParams ReqID s)) = BaseCDB s)"
proof (intro conjI impI)
  assume a: "Server s \<noteq> None \<and>
    Calls ''initialize'' = Some (bind_call ''initialize'' fromJSON (onInitialize Configure)) \<and>
    fromJSON RawParams = Some P"
  then have a1: "Server s \<noteq> None"
    and a2: "Calls ''initialize'' =
      Some (bind_call ''initialize'' fromJSON (onInitialize Configure))"
    and a3: "fromJSON RawParams = Some P"
    by blast+
  note e2e = onCall_initialize_again
    [where Calls = Calls and fromJSON = fromJSON and RawParams = RawParams, OF a1 a2 a3]
  show "fst (onCall to_string Calls ''initialize'' RawParams ReqID s) = Returns True"
    by (rule e2e)
  show "Trace (snd (onCall to_string Calls ''initialize'' RawParams ReqID s)) =
        Trace s @
          [Acquire RequestCancelersMutex, Release RequestCancelersMutex,
           Log ''<-- {0}({1})'' [AStr ''initialize'', AJson ReqID],
           Log ''--> reply:{0}({1}) {2:ms}, error: {3}''
             [AStr ''initialize'', AJson ReqID, ADuration,
              AErr (LSPError ''server already initialized'' InvalidRequest)],
           Acquire TranspWriter,
           Write (Transp_reply ReqID
                    (Inl (LSPError ''server already initialized'' InvalidRequest))),
           Release TranspWriter,
           Acquire RequestCancelersMutex, Release RequestCancelersMutex]"
    by (rule e2e)
  show "Server (snd (onCall to_string Calls ''initialize'' RawParams ReqID s)) = Server s"
    by (rule e2e)
  show "CDB (snd (onCall to_string Calls ''initialize'' RawParams ReqID s)) = CDB s"
    by (rule e2e)
  show "BaseCDB (snd (onCall to_string Calls ''initialize'' RawParams ReqID s)) = BaseCDB s"
    by (rule e2e)
qed (simp_all add: onInitialize_initialized onInitialize_options_fields)

theorem onInitialize_again_witness:
  "Trace (snd (onInitialize (\<lambda>P s. (JNull, s))
      \<lparr>offsetEncoding = Some [UTF8], capabilities_SemanticHighlighting = True,
       rootUri = Some ''/src'', rootPath = None, compilationDatabasePath = Some ''/build'',
       fallbackFlags = []\<rparr>
      (ReplyOnce_new (JInteger 2) ''initialize'')
      ((fresh_endpoint False)\<lparr>Server := Some (ClangdServerOpts (fresh_endpoint False))\<rparr>))) =
     [Log ''--> reply:{0}({1}) {2:ms}, error: {3}''
        [AStr ''initialize'', AJson (JInteger 2), ADuration,
         AErr (LSPError ''server already initialized'' InvalidRequest)],
      Acquire TranspWriter,
      Write (Transp_reply (JInteger 2)
               (Inl (LSPError ''server already initialized'' InvalidRequest))),
      Release TranspWriter] \<and>
   Server (snd (onInitialize (\<lambda>P s. (JNull, s))
      \<lparr>offsetEncoding = Some [UTF8], capabilities_SemanticHighlighting = True,
       rootUri = Some ''/src'', rootPath = None, compilationDatabasePath = Some ''/build'',
       fallbackFlags = []\<rparr>
      (ReplyOnce_new (JInteger 2) ''initialize'')
      ((fresh_endpoint False)\<lparr>Server := Some (ClangdServerOpts (fresh_endpoint False))\<rparr>))) =
     Some (ClangdServerOpts (fresh_endpoint False)) \<and>
   frames (Trace (snd (onCall (\<lambda>j. ''2'')
      [''initialize'' \<mapsto>
         bind_call ''initialize''
           (\<lambda>j. Some \<lparr>offsetEncoding = Some [UTF8], capabilities_SemanticHighlighting = True,
                       rootUri = Some ''/src'', rootPath = None,
                       compilationDatabasePath = Some ''/build'', fallbackFlags = []\<rparr>)
           (onInitialize (\<lambda>P s. (JNull, s)))]
      ''initialize'' (JObject []) (JInteger 2)
      ((fresh_endpoint False)\<lparr>Server := Some (ClangdServerOpts (fresh_endpoint False))\<rparr>)))) =
     [Transp_reply (JInteger 2) (Inl (LSPError ''server already initialized'' InvalidRequest))]"
proof -
  let ?s = "(fresh_endpoint False)\<lparr>Server := Some (ClangdServerOpts (fresh_endpoint False))\<rparr>"
  let ?P = "\<lparr>offsetEncoding = Some [UTF8], capabilities_SemanticHighlighting = True,
             rootUri = Some ''/src'', rootPath = None,
             compilationDatabasePath = Some ''/build'', fallbackFlags = []\<rparr>"
  let ?Configure = "\<lambda>(P::InitializeParams) (s::nat ClangdLSPServer). (JNull, s)"
  let ?Calls = "[''initialize'' \<mapsto>
      bind_call ''initialize'' (\<lambda>j. Some ?P) (onInitialize ?Configure)]"
  have a: "Server ?s \<noteq> None"
    and b: "ServerNonNull (ReplyOnce_new (JInteger 2) ''initialize'')"
    and c: "\<not> Replied (ReplyOnce_new (JInteger 2) ''initialize'')"
    and d: "ID (ReplyOnce_new (JInteger 2) ''initialize'') = JInteger 2"
    and e: "Method (ReplyOnce_new (JInteger 2) ''initialize'') = ''initialize''"
    and f: "?Calls ''initialize'' =
      Some (bind_call ''initialize'' (\<lambda>j. Some ?P) (onInitialize ?Configure))"
    by (simp_all add: ReplyOnce_new_def)
  note inst = onInitialize_again
        [where s = ?s and Reply = "ReplyOnce_new (JInteger 2) ''initialize''"
           and Configure = ?Configure and Params = ?P and Calls = ?Calls
           and fromJSON = "\<lambda>j. Some ?P" and RawParams = "JObject []" and P = ?P
           and to_string = "\<lambda>j. ''2''" and ReqID = "JInteger 2"]
  from inst a b c d e
  have "Trace (snd (onInitialize ?Configure ?P (ReplyOnce_new (JInteger 2) ''initialize'') ?s)) =
     [Log ''--> reply:{0}({1}) {2:ms}, error: {3}''
        [AStr ''initialize'', AJson (JInteger 2), ADuration,
         AErr (LSPError ''server already initialized'' InvalidRequest)],
      Acquire TranspWriter,
      Write (Transp_reply (JInteger 2)
               (Inl (LSPError ''server already initialized'' InvalidRequest))),
      Release TranspWriter]"
    by (simp add: fresh_endpoint_fields)
  moreover from inst a b c
  have "Server (snd (onInitialize ?Configure ?P (ReplyOnce_new (JInteger 2) ''initialize'') ?s)) =
     Some (ClangdServerOpts (fresh_endpoint False))"
    by simp
  moreover from inst a f
  have "Trace (snd (onCall (\<lambda>j. ''2'') ?Calls ''initialize'' (JObject []) (JInteger 2) ?s)) =
        Trace ?s @
          [Acquire RequestCancelersMutex, Release RequestCancelersMutex,
           Log ''<-- {0}({1})'' [AStr ''initialize'', AJson (JInteger 2)],
           Log ''--> reply:{0}({1}) {2:ms}, error: {3}''
             [AStr ''initialize'', AJson (JInteger 2), ADuration,
              AErr (LSPError ''server already initialized'' InvalidRequest)],
           Acquire TranspWriter,
           Write (Transp_reply (JInteger 2)
                    (Inl (LSPError ''server already initialized'' InvalidRequest))),
           Release TranspWriter,
           Acquire RequestCancelersMutex, Release RequestCancelersMutex]"
    by blast
  then have "frames (Trace (snd (onCall (\<lambda>j. ''2'') ?Calls ''initialize'' (JObject [])
                                  (JInteger 2) ?s))) =
     [Transp_reply (JInteger 2) (Inl (LSPError ''server already initialized'' InvalidRequest))]"
    by (simp add: fresh_endpoint_fields)
  ultimately show ?thesis by blast
qed

subsection \<open>Cancellation requests without an ID\<close>

text \<open>
  C10. When the parameters of a "$/cancelRequest" are not an object, or are an object with no
  member "id", \<^verbatim>\<open>onCancel\<close> logs "Bad cancellation request" and returns: no canceler is
  fired and \<^verbatim>\<open>RequestCancelers\<close> is not touched.
\<close>

theorem onCancel_bad_request:
  assumes "\<forall>Obj. getAsObject Params = Some Obj \<longrightarrow> map_of Obj ''id'' = None"
  shows "onCancel to_string Params s =
     s\<lparr>Trace := Trace s @ [ELog ''Bad cancellation request: {0}'' [AJson Params]]\<rparr>"
  using assms by (cases "getAsObject Params") (simp_all add: onCancel_def effects)

theorem onCancel_bad_request_witness:
  "onCancel (\<lambda>j. ''1'') (JInteger 1) (fresh_endpoint False) =
     (fresh_endpoint False)
       \<lparr>Trace := [ELog ''Bad cancellation request: {0}'' [AJson (JInteger 1)]]\<rparr> \<and>
   onCancel (\<lambda>j. ''1'') (JObject [(''ID'', JInteger 1)]) (fresh_endpoint False) =
     (fresh_endpoint False)
       \<lparr>Trace := [ELog ''Bad cancellation request: {0}''
                    [AJson (JObject [(''ID'', JInteger 1)])]]\<rparr>"
proof -
  have a: "\<forall>Obj. getAsObject (JInteger 1) = Some Obj \<longrightarrow> map_of Obj ''id'' = None"
    and b: "\<forall>Obj. getAsObject (JObject [(''ID'', JInteger 1)]) = Some Obj \<longrightarrow>
              map_of Obj ''id'' = None"
    by simp_all
  show ?thesis
    using onCancel_bad_request [OF a, of "\<lambda>j. ''1''" "fresh_endpoint False"]
      onCancel_bad_request [OF b, of "\<lambda>j. ''1''" "fresh_endpoint False"]
    by (simp add: fresh_endpoint_fields)
qed

subsection \<open>Scenarios\<close>

text \<open>
  A handler that drops the handle of call 7: in a build without assertions the client gets the
  one synthetic reply; in a build with assertions \<^verbatim>\<open>onCall\<close> does not return and nothing
  is written.
\<close>

lemma scenario_handler_drops_handle:
  "onCall (\<lambda>j. ''7'') [''test/drop'' \<mapsto> bind_call ''test/drop'' Some drop_handle]
      ''test/drop'' JNull (JInteger 7)
      ((fresh_endpoint False)\<lparr>Server := Some (ClangdServerOpts (fresh_endpoint False))\<rparr>) =
     (Returns True,
      (fresh_endpoint False)
        \<lparr>Server := Some (ClangdServerOpts (fresh_endpoint False)),
         NextRequestCookie := 1, NextTask := 1,
         Trace :=
           [Acquire RequestCancelersMutex, Release RequestCancelersMutex,
            Log ''<-- {0}({1})'' [AStr ''test/drop'', AJson (JInteger 7)],
            ELog ''No reply to message {0}({1})'' [AStr ''test/drop'', AJson (JInteger 7)],
            Log ''--> reply:{0}({1}) {2:ms}, error: {3}''
              [AStr ''test/drop'', AJson (JInteger 7), ADuration,
               AErr (LSPError ''server failed to reply'' InternalError)],
            Acquire TranspWriter,
            Write (Transp_reply (JInteger 7)
                     (Inl (LSPError ''server failed to reply'' InternalError))),
            Release TranspWriter,
            Acquire RequestCancelersMutex, Release RequestCancelersMutex]\<rparr>)"
  by (simp add: onCall_def bind_call_def drop_handle_def cancelableRequestContext_def
      cancelableTask_def requestContext_exit_def onCall_return_def ReplyOnce_new_def
      ReplyOnce_move_def ReplyOnce_dtor_def ReplyOnce_call_def effects fresh_endpoint_fields
      Let_def)

lemma scenario_handler_drops_handle_assertions:
  "onCall (\<lambda>j. ''7'') [''test/drop'' \<mapsto> bind_call ''test/drop'' Some drop_handle]
      ''test/drop'' JNull (JInteger 7)
      ((fresh_endpoint True)\<lparr>Server := Some (ClangdServerOpts (fresh_endpoint True))\<rparr>) =
     (Fails (AssertionFailed ''must reply to all calls!''),
      (fresh_endpoint True)
        \<lparr>Server := Some (ClangdServerOpts (fresh_endpoint True)),
         RequestCancelers := [''7'' \<mapsto> (0, 0)],
         NextRequestCookie := 1, NextTask := 1,
         Trace :=
           [Acquire RequestCancelersMutex, Release RequestCancelersMutex,
            Log ''<-- {0}({1})'' [AStr ''test/drop'', AJson (JInteger 7)],
            ELog ''No reply to message {0}({1})'' [AStr ''test/drop'', AJson (JInteger 7)]]\<rparr>)"
  by (simp add: onCall_def bind_call_def drop_handle_def cancelableRequestContext_def
      cancelableTask_def requestContext_exit_def onCall_return_def ReplyOnce_new_def
      ReplyOnce_move_def ReplyOnce_dtor_def ReplyOnce_call_def effects fresh_endpoint_fields
      Let_def)

text \<open>
  Two calls with the ID 5 whose handlers have not finished, then a cancellation of 5: the
  canceler of the second call's task, task 1, is fired and that of task 0 is not; when the
  first call's context goes away afterwards, the entry of the second is still there.
\<close>

lemma scenario_cancel_after_id_reuse:
  "fired (Trace (snd (onNotify to_string Map.empty ''$/cancelRequest'' (JObject [(''id'', JInteger 5)])
     (snd (onCall to_string [''test/slow'' \<mapsto> bind_call ''test/slow'' Some park_handle]
            ''test/slow'' JNull (JInteger 5)
        (snd (onCall to_string [''test/slow'' \<mapsto> bind_call ''test/slow'' Some park_handle]
               ''test/slow'' JNull (JInteger 5)
           ((fresh_endpoint False)
              \<lparr>Server := Some (ClangdServerOpts (fresh_endpoint False))\<rparr>)))))))) = [1] \<and>
   RequestCancelers
     (requestContext_exit (to_string (JInteger 5), 0)
        (snd (onNotify to_string Map.empty ''$/cancelRequest'' (JObject [(''id'', JInteger 5)])
          (snd (onCall to_string [''test/slow'' \<mapsto> bind_call ''test/slow'' Some park_handle]
                 ''test/slow'' JNull (JInteger 5)
             (snd (onCall to_string [''test/slow'' \<mapsto> bind_call ''test/slow'' Some park_handle]
                    ''test/slow'' JNull (JInteger 5)
                ((fresh_endpoint False)
                   \<lparr>Server := Some (ClangdServerOpts (fresh_endpoint False))\<rparr>))))))))
     (to_string (JInteger 5)) = Some (1, 1)"
  by (simp add: onCall_def onNotify_def onCancel_def bind_call_def park_handle_def
      cancelableRequestContext_def
      cancelableTask_def requestContext_exit_def onCall_return_def ReplyOnce_new_def
      ReplyOnce_move_def ReplyOnce_dtor_def ReplyOnce_call_def effects fresh_endpoint_fields
      Let_def)

end
